theory Spec2Isabelle
  imports Main "HOL-Library.Word"
begin

section \<open>Kernel entry points of src/api/syscall.c\<close>

text \<open>
  The file embeds the five kernel entry points of \<^verbatim>\<open>src/api/syscall.c\<close>
  (\<^verbatim>\<open>handleInterruptEntry\<close>, \<^verbatim>\<open>handleUnknownSyscall\<close>, \<^verbatim>\<open>handleUserLevelFault\<close>,
  \<^verbatim>\<open>handleVMFaultEvent\<close>, \<^verbatim>\<open>handleSyscall\<close>) and the four static handlers they call
  (\<^verbatim>\<open>handleInvocation\<close>, \<^verbatim>\<open>handleReply\<close>, \<^verbatim>\<open>handleRecv\<close>, \<^verbatim>\<open>handleYield\<close>).

  Every function the file calls but does not define (the scheduler, the IPC engine, the
  capability lookups, the invocation decoder, ...) is a field of the record
  \<open>collaborators\<close>: an arbitrary function on the kernel state. Each call of such a
  function appends one \<open>event\<close>, carrying the actual arguments, to a trace that the
  collaborators themselves cannot touch, so that "is called", "is never called" and "is
  called before" are statements about the trace. \<^verbatim>\<open>fail\<close>, \<^verbatim>\<open>halt\<close> and a failed
  \<^verbatim>\<open>assert\<close> do not return: they are the outcome \<open>Fatal\<close>. \<^verbatim>\<open>printf\<close> and
  \<^verbatim>\<open>userError\<close> only write to the console and are left out.

  The preprocessor conditions of the file (\<^verbatim>\<open>DEBUG\<close>, \<^verbatim>\<open>DANGEROUS_CODE_INJECTION\<close>,
  \<^verbatim>\<open>CONFIG_MAX_NUM_TRACE_POINTS\<close>) and the constants it takes from headers are fields
  of the record \<open>config\<close>.

  Two assumptions of the model: a collaborator always returns (it is a total function of
  the state; a collaborator that halts is not modelled), and a machine word has 64 bits
  (the only headers among the sources are those of the 64-bit ARM mode). The width
  matters only for the pointer arithmetic of the debug and benchmark system calls.
\<close>

subsection \<open>Types\<close>

type_synonym word_t = "64 word"
type_synonym irq_t = word_t
type_synonym cptr_t = word_t
type_synonym tcb_ptr = word_t

datatype exception_t =
    EXCEPTION_NONE
  | EXCEPTION_FAULT
  | EXCEPTION_LOOKUP_FAULT
  | EXCEPTION_SYSCALL_ERROR
  | EXCEPTION_PREEMPTED

text \<open>
  \<^verbatim>\<open>syscall_t\<close> is a C enumeration: the eight labels of the switch in
  \<^verbatim>\<open>handleSyscall\<close>, and \<open>SysUndefined n\<close> for any other value \<open>n\<close> of the
  underlying integer type (the \<^verbatim>\<open>default\<close> label).
\<close>

datatype syscall_t =
    SysSend | SysNBSend | SysCall | SysRecv | SysReply | SysReplyRecv | SysNBRecv | SysYield
  | SysUndefined int

text \<open>
  Modelled from the spec: the thread-state tags, whose declaration is not among the
  sources ("Running, Restart, BlockedOnReceive, BlockedOnSend, BlockedOnReply,
  BlockedOnNotification, Inactive, ..."). The C type \<^verbatim>\<open>thread_state_t\<close> is a bit
  field; the code reads its fields \<^verbatim>\<open>tsType\<close> and \<^verbatim>\<open>tcbQueued\<close>.
\<close>

datatype tsType_t =
    ThreadState_Inactive
  | ThreadState_Running
  | ThreadState_Restart
  | ThreadState_BlockedOnReceive
  | ThreadState_BlockedOnSend
  | ThreadState_BlockedOnReply
  | ThreadState_BlockedOnNotification
  | ThreadState_IdleThreadState

record thread_state_t =
  thread_state_get_tsType :: tsType_t
  thread_state_get_tcbQueued :: bool

datatype cap_tag_t =
    cap_null_cap | cap_endpoint_cap | cap_notification_cap | cap_reply_cap | cap_thread_cap
  | cap_other_cap nat

text \<open>
  Modelled from the spec: the declaration of \<^verbatim>\<open>cap_t\<close> (a generated bit field) is
  not among the sources. The spec's data model names the variants null, endpoint (with
  independent send and receive rights), notification, reply (with the master flag) and
  thread. The selectors carry the names of the C accessors; like them, they are only
  meaningful on a capability of their own tag.
\<close>

datatype cap_t =
    NullCap
  | EndpointCap
      (cap_endpoint_cap_get_capEPPtr: word_t)
      (cap_endpoint_cap_get_capEPBadge: word_t)
      (cap_endpoint_cap_get_capCanSend: bool)
      (cap_endpoint_cap_get_capCanReceive: bool)
  | NotificationCap
      (cap_notification_cap_get_capNtfnPtr: word_t)
      (cap_notification_cap_get_capNtfnBadge: word_t)
      (cap_notification_cap_get_capNtfnCanSend: bool)
      (cap_notification_cap_get_capNtfnCanReceive: bool)
  | ReplyCap
      (cap_reply_cap_get_capReplyMaster: bool)
      (cap_reply_cap_get_capTCBPtr: tcb_ptr)
  | ThreadCap
      (cap_thread_cap_get_capTCBPtr: tcb_ptr)
  | OtherCap nat

fun cap_get_capType :: "cap_t \<Rightarrow> cap_tag_t" where
  "cap_get_capType NullCap = cap_null_cap"
| "cap_get_capType (EndpointCap p b s r) = cap_endpoint_cap"
| "cap_get_capType (NotificationCap p b s r) = cap_notification_cap"
| "cap_get_capType (ReplyCap m t) = cap_reply_cap"
| "cap_get_capType (ThreadCap t) = cap_thread_cap"
| "cap_get_capType (OtherCap n) = cap_other_cap n"

text \<open>
  A slot pointer \<^verbatim>\<open>cte_t *\<close>: either one of the slots inside a TCB, as the macro
  \<^verbatim>\<open>TCB_PTR_CTE_PTR(tcb, index)\<close> computes it, or any other address.
\<close>

datatype tcb_cnode_index =
  tcbCTable | tcbVTable | tcbReply | tcbCaller | tcbIPCBufferSlot

datatype cte_ptr =
    TCB_PTR_CTE_PTR tcb_ptr tcb_cnode_index
  | CTE_PTR word_t

text \<open>
  Modelled from the spec: lookup faults and faults, named after the constructors that
  the code calls ("fault constructors for unknown-syscall / user-exception / cap-fault /
  lookup-fault-missing-capability"); their declarations are not among the sources.
\<close>

datatype lookup_fault_t =
    lookup_fault_invalid_root_new
  | lookup_fault_missing_capability_new word_t
  | lookup_fault_depth_mismatch_new word_t word_t
  | lookup_fault_guard_mismatch_new word_t word_t word_t

datatype fault_t =
    fault_null_fault_new
  | fault_cap_fault_new word_t bool
  | fault_unknown_syscall_new word_t
  | fault_user_exception_new word_t word_t
  | fault_vm_fault_new word_t word_t bool

datatype syscall_error_type =
  seL4_NoError | seL4_InvalidArgument | seL4_IllegalOperation | seL4_OtherError nat

text \<open>
  Modelled from the spec: the message header ("operation label, length,
  capability-transfer count, flags"); the fields carry the names of the C accessors.
  The decoding of a register word into a header, \<^verbatim>\<open>messageInfoFromWord\<close>, is a
  collaborator.
\<close>

record message_info_t =
  message_info_get_msgLabel :: word_t
  message_info_get_msgCapsUnwrapped :: word_t
  message_info_get_msgExtraCaps :: word_t
  message_info_get_msgLength :: word_t

record lookupCapAndSlot_ret_t =
  lcs_status :: exception_t
  lcs_cap :: cap_t
  lcs_slot :: cte_ptr

record lookupCap_ret_t =
  lc_status :: exception_t
  lc_cap :: cap_t

datatype register = capRegister | msgInfoRegister | otherRegister nat

record tcb_t =
  tcbState :: thread_state_t
  tcbSchedContext :: word_t
  tcbRegisters :: "register \<Rightarrow> word_t"

text \<open>The debug-only record \<^verbatim>\<open>ksKernelEntry\<close>, written only under \<^verbatim>\<open>DEBUG\<close>.\<close>

datatype debug_path =
  Debug_Interrupt | Debug_UnknownSyscall | Debug_UserLevelFault | Debug_VMFault | Debug_Syscall

record kernel_entry_t =
  ke_path :: debug_path
  ke_irq :: irq_t
  ke_word :: word_t
  ke_number :: word_t
  ke_code :: word_t
  ke_fault_type :: word_t
  ke_cap_type :: cap_tag_t
  ke_invocation_tag :: word_t
  ke_syscall_no :: syscall_t

record ks_log_entry_t =
  log_key :: word_t
  log_data :: word_t

subsection \<open>The kernel state\<close>

text \<open>
  The globals and heap objects that the file reads or writes itself; \<open>ksRest\<close> is
  everything else the collaborators keep (run queues, endpoints, ...). Pointers are
  machine words and \<open>0\<close> is \<^verbatim>\<open>NULL\<close>. \<open>ksMem\<close> is byte-addressed memory, which only
  the debug and benchmark system calls access directly.
\<close>

record 'x kernel_state =
  ksCurThread :: tcb_ptr
  ksTCBs :: "tcb_ptr \<Rightarrow> tcb_t"
  ksCTEs :: "cte_ptr \<Rightarrow> cap_t"
  ksNtfnBoundTCB :: "word_t \<Rightarrow> tcb_ptr"
  current_fault :: fault_t
  current_lookup_fault :: lookup_fault_t
  current_extra_caps :: "cte_ptr list"
  current_syscall_error_type :: syscall_error_type
  ksConsumed :: "64 word"
  ksKernelEntry :: kernel_entry_t
  ksLogIndex :: word_t
  ksLogIndexFinalized :: word_t
  ksLog :: "nat \<Rightarrow> ks_log_entry_t"
  ksMem :: "word_t \<Rightarrow> 8 word"
  ksRest :: 'x

text \<open>
  Modelled from the spec: the register accessors \<^verbatim>\<open>getRegister\<close> and
  \<^verbatim>\<open>setRegister\<close> ("by symbolic register role") read and write the register file
  saved in the thread's TCB.
\<close>

definition getRegister :: "'x kernel_state \<Rightarrow> tcb_ptr \<Rightarrow> register \<Rightarrow> word_t" where
  "getRegister s thread reg = tcbRegisters (ksTCBs s thread) reg"

definition setRegister :: "tcb_ptr \<Rightarrow> register \<Rightarrow> word_t \<Rightarrow> 'x kernel_state \<Rightarrow> 'x kernel_state" where
  "setRegister thread reg w s =
     s\<lparr>ksTCBs := (ksTCBs s)
         (thread := (ksTCBs s thread)\<lparr>tcbRegisters := (tcbRegisters (ksTCBs s thread))(reg := w)\<rparr>)\<rparr>"

text \<open>
  \<^verbatim>\<open>notification_ptr_get_ntfnBoundTCB(ntfnPtr)\<close> reads the bound-TCB field of the
  notification object at \<open>ntfnPtr\<close>.
\<close>

definition notification_ptr_get_ntfnBoundTCB :: "'x kernel_state \<Rightarrow> word_t \<Rightarrow> tcb_ptr" where
  "notification_ptr_get_ntfnBoundTCB s ntfnPtr = ksNtfnBoundTCB s ntfnPtr"

text \<open>A store of one machine word at a byte address (little-endian, eight bytes).\<close>

definition store_word :: "word_t \<Rightarrow> word_t \<Rightarrow> (word_t \<Rightarrow> 8 word) \<Rightarrow> (word_t \<Rightarrow> 8 word)" where
  "store_word a v m = (\<lambda>p. if p - a < 8 then ucast (drop_bit (8 * unat (p - a)) v) else m p)"

subsection \<open>Build configuration and header constants\<close>

text \<open>
  \<open>assertions_enabled\<close> says whether the macro \<^verbatim>\<open>assert\<close>, whose definition is not
  among the sources, is compiled to a check. \<open>capTypeWord\<close> is the numbering of the
  capability tags, which the debug call \<^verbatim>\<open>SysDebugCapIdentify\<close> returns to the user.
\<close>

record config =
  DEBUG :: bool
  DANGEROUS_CODE_INJECTION :: bool
  CONFIG_MAX_NUM_TRACE_POINTS :: nat
  assertions_enabled :: bool
  irqInvalid :: irq_t
  n_msgRegisters :: word_t
  seL4_MsgMaxLength :: word_t
  MAX_LOG_SIZE :: word_t
  MAX_IPC_BUFFER_STORAGE :: word_t
  SysDebugPutChar :: word_t
  SysDebugHalt :: word_t
  SysDebugSnapshot :: word_t
  SysDebugCapIdentify :: word_t
  SysDebugNameThread :: word_t
  SysDebugRun :: word_t
  SysBenchmarkResetLog :: word_t
  SysBenchmarkDumpLog :: word_t
  SysBenchmarkLogSize :: word_t
  SysBenchmarkFinalizeLog :: word_t
  capTypeWord :: "cap_tag_t \<Rightarrow> word_t"

subsection \<open>Collaborators and the trace of their calls\<close>

datatype event =
    E_getActiveIRQ
  | E_handleInterrupt irq_t
  | E_handleSpuriousIRQ
  | E_updateTimestamp
  | E_checkBudget
  | E_handleFault tcb_ptr
  | E_handleVMFault tcb_ptr word_t
  | E_setThreadState tcb_ptr tsType_t
  | E_schedule
  | E_activateThread
  | E_lookupCapAndSlot tcb_ptr cptr_t
  | E_lookupCap tcb_ptr cptr_t
  | E_lookupIPCBuffer bool tcb_ptr
  | E_lookupExtraCaps tcb_ptr word_t message_info_t
  | E_decodeInvocation word_t word_t cptr_t cte_ptr cap_t "cte_ptr list" bool bool word_t
  | E_replyFromKernel_error tcb_ptr
  | E_replyFromKernel_success_empty tcb_ptr
  | E_doReplyTransfer tcb_ptr tcb_ptr cte_ptr
  | E_deleteCallerCap tcb_ptr
  | E_receiveIPC tcb_ptr cap_t bool
  | E_receiveSignal tcb_ptr cap_t bool
  | E_ready tcb_ptr
  | E_recharge word_t
  | E_postpone word_t
  | E_tcbSchedAppend tcb_ptr
  | E_rescheduleRequired
  | E_kernel_putchar word_t
  | E_capDL
  | E_strnlen word_t word_t
  | E_setThreadName tcb_ptr word_t
  | E_debugRun word_t word_t

record 'x collaborators =
  getActiveIRQ :: "'x kernel_state \<Rightarrow> irq_t \<times> 'x kernel_state"
  handleInterrupt :: "irq_t \<Rightarrow> 'x kernel_state \<Rightarrow> 'x kernel_state"
  handleSpuriousIRQ :: "'x kernel_state \<Rightarrow> 'x kernel_state"
  updateTimestamp :: "'x kernel_state \<Rightarrow> 'x kernel_state"
  checkBudget :: "'x kernel_state \<Rightarrow> bool \<times> 'x kernel_state"
  handleFault :: "tcb_ptr \<Rightarrow> 'x kernel_state \<Rightarrow> 'x kernel_state"
  handleVMFault :: "tcb_ptr \<Rightarrow> word_t \<Rightarrow> 'x kernel_state \<Rightarrow> exception_t \<times> 'x kernel_state"
  setThreadState :: "tcb_ptr \<Rightarrow> tsType_t \<Rightarrow> 'x kernel_state \<Rightarrow> 'x kernel_state"
  schedule :: "'x kernel_state \<Rightarrow> 'x kernel_state"
  activateThread :: "'x kernel_state \<Rightarrow> 'x kernel_state"
  messageInfoFromWord :: "word_t \<Rightarrow> message_info_t"
  lookupCapAndSlot :: "tcb_ptr \<Rightarrow> cptr_t \<Rightarrow> 'x kernel_state \<Rightarrow> lookupCapAndSlot_ret_t \<times> 'x kernel_state"
  lookupCap :: "tcb_ptr \<Rightarrow> cptr_t \<Rightarrow> 'x kernel_state \<Rightarrow> lookupCap_ret_t \<times> 'x kernel_state"
  lookupIPCBuffer :: "bool \<Rightarrow> tcb_ptr \<Rightarrow> 'x kernel_state \<Rightarrow> word_t \<times> 'x kernel_state"
  lookupExtraCaps :: "tcb_ptr \<Rightarrow> word_t \<Rightarrow> message_info_t \<Rightarrow> 'x kernel_state \<Rightarrow> exception_t \<times> 'x kernel_state"
  decodeInvocation :: "word_t \<Rightarrow> word_t \<Rightarrow> cptr_t \<Rightarrow> cte_ptr \<Rightarrow> cap_t \<Rightarrow> cte_ptr list \<Rightarrow> bool \<Rightarrow> bool \<Rightarrow> word_t
                         \<Rightarrow> 'x kernel_state \<Rightarrow> exception_t \<times> 'x kernel_state"
  replyFromKernel_error :: "tcb_ptr \<Rightarrow> 'x kernel_state \<Rightarrow> 'x kernel_state"
  replyFromKernel_success_empty :: "tcb_ptr \<Rightarrow> 'x kernel_state \<Rightarrow> 'x kernel_state"
  doReplyTransfer :: "tcb_ptr \<Rightarrow> tcb_ptr \<Rightarrow> cte_ptr \<Rightarrow> 'x kernel_state \<Rightarrow> 'x kernel_state"
  deleteCallerCap :: "tcb_ptr \<Rightarrow> 'x kernel_state \<Rightarrow> 'x kernel_state"
  receiveIPC :: "tcb_ptr \<Rightarrow> cap_t \<Rightarrow> bool \<Rightarrow> 'x kernel_state \<Rightarrow> 'x kernel_state"
  receiveSignal :: "tcb_ptr \<Rightarrow> cap_t \<Rightarrow> bool \<Rightarrow> 'x kernel_state \<Rightarrow> 'x kernel_state"
  ready :: "tcb_ptr \<Rightarrow> 'x kernel_state \<Rightarrow> bool \<times> 'x kernel_state"
  recharge :: "word_t \<Rightarrow> 'x kernel_state \<Rightarrow> 'x kernel_state"
  postpone :: "word_t \<Rightarrow> 'x kernel_state \<Rightarrow> 'x kernel_state"
  tcbSchedAppend :: "tcb_ptr \<Rightarrow> 'x kernel_state \<Rightarrow> 'x kernel_state"
  rescheduleRequired :: "'x kernel_state \<Rightarrow> 'x kernel_state"
  kernel_putchar :: "word_t \<Rightarrow> 'x kernel_state \<Rightarrow> 'x kernel_state"
  capDL :: "'x kernel_state \<Rightarrow> 'x kernel_state"
  strnlen :: "word_t \<Rightarrow> word_t \<Rightarrow> 'x kernel_state \<Rightarrow> word_t \<times> 'x kernel_state"
  setThreadName :: "tcb_ptr \<Rightarrow> word_t \<Rightarrow> 'x kernel_state \<Rightarrow> 'x kernel_state"
  debugRun :: "word_t \<Rightarrow> word_t \<Rightarrow> 'x kernel_state \<Rightarrow> 'x kernel_state"

subsection \<open>Running kernel code: state, trace and fatal stops\<close>

datatype fatal = Fail string | AssertionFailed string | Halt

datatype ('a, 's) outcome = Fatal fatal 's | Ret 'a 's

type_synonym 'x kst = "event list \<times> 'x kernel_state"
type_synonym ('a, 'x) kernel = "'x kst \<Rightarrow> ('a, 'x kst) outcome"

definition returnK :: "'a \<Rightarrow> ('a, 'x) kernel" where
  "returnK a = (\<lambda>st. Ret a st)"

definition bindK :: "('a, 'x) kernel \<Rightarrow> ('a \<Rightarrow> ('b, 'x) kernel) \<Rightarrow> ('b, 'x) kernel" where
  "bindK m f = (\<lambda>st. case m st of Fatal e st' \<Rightarrow> Fatal e st' | Ret a st' \<Rightarrow> f a st')"

definition thenK :: "('a, 'x) kernel \<Rightarrow> ('b, 'x) kernel \<Rightarrow> ('b, 'x) kernel" where
  "thenK m n = bindK m (\<lambda>_. n)"

definition failK :: "fatal \<Rightarrow> ('a, 'x) kernel" where
  "failK e = (\<lambda>st. Fatal e st)"

definition getsK :: "('x kernel_state \<Rightarrow> 'a) \<Rightarrow> ('a, 'x) kernel" where
  "getsK f = (\<lambda>st. Ret (f (snd st)) st)"

definition modifyK :: "('x kernel_state \<Rightarrow> 'x kernel_state) \<Rightarrow> (unit, 'x) kernel" where
  "modifyK f = (\<lambda>st. Ret () (fst st, f (snd st)))"

text \<open>A call of a collaborator that returns a value, and of one that returns none.\<close>

definition callK :: "event \<Rightarrow> ('x kernel_state \<Rightarrow> 'a \<times> 'x kernel_state) \<Rightarrow> ('a, 'x) kernel" where
  "callK ev f = (\<lambda>st. Ret (fst (f (snd st))) (fst st @ [ev], snd (f (snd st))))"

definition callV :: "event \<Rightarrow> ('x kernel_state \<Rightarrow> 'x kernel_state) \<Rightarrow> (unit, 'x) kernel" where
  "callV ev f = (\<lambda>st. Ret () (fst st @ [ev], f (snd st)))"

definition whenK :: "bool \<Rightarrow> (unit, 'x) kernel \<Rightarrow> (unit, 'x) kernel" where
  "whenK b m = (if b then m else returnK ())"

definition assertK :: "config \<Rightarrow> string \<Rightarrow> bool \<Rightarrow> (unit, 'x) kernel" where
  "assertK cfg expr b =
     (if assertions_enabled cfg \<and> \<not> b then failK (AssertionFailed expr) else returnK ())"

text \<open>
  Assignments inside \<^verbatim>\<open>#ifdef DEBUG\<close>: the state after them is \<open>debugState cfg f s\<close>,
  where \<open>f\<close> is the assignment.
\<close>

definition debugState :: "config \<Rightarrow> ('x kernel_state \<Rightarrow> 'x kernel_state) \<Rightarrow> 'x kernel_state \<Rightarrow> 'x kernel_state" where
  "debugState cfg f s = (if DEBUG cfg then f s else s)"

definition debugK :: "config \<Rightarrow> ('x kernel_state \<Rightarrow> 'x kernel_state) \<Rightarrow> (unit, 'x) kernel" where
  "debugK cfg f = modifyK (debugState cfg f)"

text \<open>The writes to \<^verbatim>\<open>ksKernelEntry\<close> at the head of each function.\<close>

definition entry_Interrupt :: "irq_t \<Rightarrow> 'x kernel_state \<Rightarrow> 'x kernel_state" where
  "entry_Interrupt irq s =
     s\<lparr>ksKernelEntry := (ksKernelEntry s)\<lparr>ke_path := Debug_Interrupt, ke_irq := irq\<rparr>\<rparr>"

definition entry_UnknownSyscall :: "word_t \<Rightarrow> 'x kernel_state \<Rightarrow> 'x kernel_state" where
  "entry_UnknownSyscall w s =
     s\<lparr>ksKernelEntry := (ksKernelEntry s)\<lparr>ke_path := Debug_UnknownSyscall, ke_word := w\<rparr>\<rparr>"

definition entry_UserLevelFault :: "word_t \<Rightarrow> word_t \<Rightarrow> 'x kernel_state \<Rightarrow> 'x kernel_state" where
  "entry_UserLevelFault w_a w_b s =
     s\<lparr>ksKernelEntry := (ksKernelEntry s)
         \<lparr>ke_path := Debug_UserLevelFault, ke_number := w_a, ke_code := w_b\<rparr>\<rparr>"

definition entry_VMFault :: "word_t \<Rightarrow> 'x kernel_state \<Rightarrow> 'x kernel_state" where
  "entry_VMFault vm_faultType s =
     s\<lparr>ksKernelEntry := (ksKernelEntry s)\<lparr>ke_path := Debug_VMFault, ke_fault_type := vm_faultType\<rparr>\<rparr>"

definition entry_Invocation :: "cap_t \<Rightarrow> message_info_t \<Rightarrow> 'x kernel_state \<Rightarrow> 'x kernel_state" where
  "entry_Invocation cap info s =
     s\<lparr>ksKernelEntry := (ksKernelEntry s)
         \<lparr>ke_cap_type := cap_get_capType cap,
          ke_invocation_tag := message_info_get_msgLabel info\<rparr>\<rparr>"

definition entry_Syscall :: "syscall_t \<Rightarrow> 'x kernel_state \<Rightarrow> 'x kernel_state" where
  "entry_Syscall syscall s =
     s\<lparr>ksKernelEntry := (ksKernelEntry s)\<lparr>ke_path := Debug_Syscall, ke_syscall_no := syscall\<rparr>\<rparr>"

subsection \<open>handleInterruptEntry\<close>

definition handleInterruptEntry :: "config \<Rightarrow> 'x collaborators \<Rightarrow> (exception_t, 'x) kernel" where
  "handleInterruptEntry cfg C =
     bindK (callK E_getActiveIRQ (getActiveIRQ C)) (\<lambda>irq.
     thenK (debugK cfg (entry_Interrupt irq))
    (thenK (if irq \<noteq> irqInvalid cfg
            then callV (E_handleInterrupt irq) (handleInterrupt C irq)
            else callV E_handleSpuriousIRQ (handleSpuriousIRQ C))
    (thenK (callV E_schedule (schedule C))
    (thenK (callV E_activateThread (activateThread C))
    (returnK EXCEPTION_NONE)))))"

subsection \<open>handleUnknownSyscall\<close>

text \<open>The branch \<^verbatim>\<open>w == SysDebugNameThread\<close> (under \<^verbatim>\<open>DEBUG\<close>).\<close>

definition debugNameThread :: "config \<Rightarrow> 'x collaborators \<Rightarrow> (exception_t, 'x) kernel" where
  "debugNameThread cfg C =
     bindK (getsK (\<lambda>s. getRegister s (ksCurThread s) capRegister)) (\<lambda>cptr.
     bindK (bindK (getsK ksCurThread) (\<lambda>t. callK (E_lookupCapAndSlot t cptr) (lookupCapAndSlot C t cptr))) (\<lambda>lu_ret.
     if cap_get_capType (lcs_cap lu_ret) \<noteq> cap_thread_cap then failK Halt
     else
       bindK (bindK (getsK ksCurThread) (\<lambda>t. callK (E_lookupIPCBuffer True t) (lookupIPCBuffer C True t))) (\<lambda>buffer.
       if buffer + 8 = 0 then failK Halt
       else
         bindK (callK (E_strnlen (buffer + 8) (seL4_MsgMaxLength cfg * 8))
                      (strnlen C (buffer + 8) (seL4_MsgMaxLength cfg * 8))) (\<lambda>n.
         bindK (getsK (\<lambda>s. ksMem s (buffer + 8 + n))) (\<lambda>c.
         if c \<noteq> 0 then failK Halt
         else
           thenK (callV (E_setThreadName (cap_thread_cap_get_capTCBPtr (lcs_cap lu_ret)) (buffer + 8))
                        (setThreadName C (cap_thread_cap_get_capTCBPtr (lcs_cap lu_ret)) (buffer + 8)))
                 (returnK EXCEPTION_NONE))))))"

text \<open>
  One iteration of the copy loop of \<^verbatim>\<open>SysBenchmarkDumpLog\<close>; \<^verbatim>\<open>base_index\<close> is a C
  \<^verbatim>\<open>int\<close> (32 bits, signed), \<^verbatim>\<open>buffer\<close> a pointer to machine words.
\<close>

definition dumpLogEntry :: "word_t \<Rightarrow> word_t \<Rightarrow> word_t \<Rightarrow> 'x kernel_state \<Rightarrow> 'x kernel_state" where
  "dumpLogEntry buffer start i s =
     (let base_index = (ucast (i * 2 + 1) :: 32 word);
          log = ksLog s (unat (i + start));
          m1 = store_word (buffer + 8 * scast base_index) (log_key log) (ksMem s);
          m2 = store_word (buffer + 8 * scast (base_index + 1)) (log_data log) m1
      in s\<lparr>ksMem := m2\<rparr>)"

text \<open>The branch \<^verbatim>\<open>w == SysBenchmarkDumpLog\<close> (when \<^verbatim>\<open>CONFIG_MAX_NUM_TRACE_POINTS > 0\<close>).\<close>

definition benchmarkDumpLog :: "config \<Rightarrow> 'x collaborators \<Rightarrow> (exception_t, 'x) kernel" where
  "benchmarkDumpLog cfg C =
     bindK (bindK (getsK ksCurThread) (\<lambda>t. callK (E_lookupIPCBuffer True t) (lookupIPCBuffer C True t))) (\<lambda>buffer.
     bindK (getsK (\<lambda>s. getRegister s (ksCurThread s) capRegister)) (\<lambda>start.
     bindK (getsK (\<lambda>s. getRegister s (ksCurThread s) msgInfoRegister)) (\<lambda>size0.
     bindK (getsK (\<lambda>s. if ksLogIndexFinalized s > MAX_LOG_SIZE cfg then MAX_LOG_SIZE cfg
                         else ksLogIndexFinalized s)) (\<lambda>logSize.
     if buffer = 0 then
       thenK (modifyK (\<lambda>s. s\<lparr>current_syscall_error_type := seL4_IllegalOperation\<rparr>))
             (returnK EXCEPTION_SYSCALL_ERROR)
     else if start > logSize then
       thenK (modifyK (\<lambda>s. s\<lparr>current_syscall_error_type := seL4_InvalidArgument\<rparr>))
             (returnK EXCEPTION_SYSCALL_ERROR)
     else
       (let size1 = (if size0 > MAX_IPC_BUFFER_STORAGE cfg then MAX_IPC_BUFFER_STORAGE cfg else size0);
            size2 = (if start + size1 > logSize then logSize - start else size1)
        in thenK (modifyK (\<lambda>s. fold (\<lambda>k. dumpLogEntry buffer start (of_nat k)) [0 ..< unat size2] s))
          (thenK (modifyK (\<lambda>s. setRegister (ksCurThread s) capRegister size2 s))
                 (returnK EXCEPTION_NONE)))))))"

text \<open>
  The part of \<^verbatim>\<open>handleUnknownSyscall\<close> after the conditional blocks: the budget-gated
  delivery of an unknown-syscall fault.
\<close>

definition unknownSyscallFault :: "'x collaborators \<Rightarrow> word_t \<Rightarrow> (exception_t, 'x) kernel" where
  "unknownSyscallFault C w =
     thenK (callV E_updateTimestamp (updateTimestamp C))
    (bindK (callK E_checkBudget (checkBudget C)) (\<lambda>b.
     thenK (if b then
              thenK (modifyK (\<lambda>s. s\<lparr>current_fault := fault_unknown_syscall_new w\<rparr>))
                    (bindK (getsK ksCurThread) (\<lambda>t. callV (E_handleFault t) (handleFault C t)))
            else
              bindK (getsK ksCurThread) (\<lambda>t.
                callV (E_setThreadState t ThreadState_Restart) (setThreadState C t ThreadState_Restart)))
    (thenK (callV E_schedule (schedule C))
    (thenK (callV E_activateThread (activateThread C))
    (returnK EXCEPTION_NONE)))))"

definition handleUnknownSyscall :: "config \<Rightarrow> 'x collaborators \<Rightarrow> word_t \<Rightarrow> (exception_t, 'x) kernel" where
  "handleUnknownSyscall cfg C w =
     thenK (debugK cfg (entry_UnknownSyscall w))
     (if DEBUG cfg \<and> w = SysDebugPutChar cfg then
        thenK (bindK (getsK (\<lambda>s. getRegister s (ksCurThread s) capRegister)) (\<lambda>c.
                 callV (E_kernel_putchar c) (kernel_putchar C c)))
              (returnK EXCEPTION_NONE)
      else if DEBUG cfg \<and> w = SysDebugHalt cfg then
        failK Halt
      else if DEBUG cfg \<and> w = SysDebugSnapshot cfg then
        thenK (callV E_capDL (capDL C)) (returnK EXCEPTION_NONE)
      else if DEBUG cfg \<and> w = SysDebugCapIdentify cfg then
        bindK (getsK (\<lambda>s. getRegister s (ksCurThread s) capRegister)) (\<lambda>cptr.
        bindK (bindK (getsK ksCurThread) (\<lambda>t. callK (E_lookupCapAndSlot t cptr) (lookupCapAndSlot C t cptr))) (\<lambda>lu_ret.
        thenK (modifyK (\<lambda>s. setRegister (ksCurThread s) capRegister
                               (capTypeWord cfg (cap_get_capType (lcs_cap lu_ret))) s))
              (returnK EXCEPTION_NONE)))
      else if DEBUG cfg \<and> w = SysDebugNameThread cfg then
        debugNameThread cfg C
      else if DANGEROUS_CODE_INJECTION cfg \<and> w = SysDebugRun cfg then
        bindK (getsK (\<lambda>s. getRegister s (ksCurThread s) capRegister)) (\<lambda>f.
        bindK (getsK (\<lambda>s. getRegister s (ksCurThread s) msgInfoRegister)) (\<lambda>arg.
        thenK (callV (E_debugRun f arg) (debugRun C f arg))
              (returnK EXCEPTION_NONE)))
      else if 0 < CONFIG_MAX_NUM_TRACE_POINTS cfg \<and> w = SysBenchmarkResetLog cfg then
        thenK (modifyK (\<lambda>s. s\<lparr>ksLogIndex := 0\<rparr>)) (returnK EXCEPTION_NONE)
      else if 0 < CONFIG_MAX_NUM_TRACE_POINTS cfg \<and> w = SysBenchmarkDumpLog cfg then
        benchmarkDumpLog cfg C
      else if 0 < CONFIG_MAX_NUM_TRACE_POINTS cfg \<and> w = SysBenchmarkLogSize cfg then
        thenK (modifyK (\<lambda>s. setRegister (ksCurThread s) capRegister (ksLogIndexFinalized s) s))
              (returnK EXCEPTION_NONE)
      else if 0 < CONFIG_MAX_NUM_TRACE_POINTS cfg \<and> w = SysBenchmarkFinalizeLog cfg then
        thenK (modifyK (\<lambda>s. s\<lparr>ksLogIndexFinalized := ksLogIndex s\<rparr>)) (returnK EXCEPTION_NONE)
      else
        unknownSyscallFault C w)"

subsection \<open>handleUserLevelFault and handleVMFaultEvent\<close>

definition handleUserLevelFault :: "config \<Rightarrow> 'x collaborators \<Rightarrow> word_t \<Rightarrow> word_t \<Rightarrow> (exception_t, 'x) kernel" where
  "handleUserLevelFault cfg C w_a w_b =
     thenK (debugK cfg (entry_UserLevelFault w_a w_b))
    (thenK (callV E_updateTimestamp (updateTimestamp C))
    (bindK (callK E_checkBudget (checkBudget C)) (\<lambda>b.
     thenK (if b then
              thenK (modifyK (\<lambda>s. s\<lparr>current_fault := fault_user_exception_new w_a w_b\<rparr>))
                    (bindK (getsK ksCurThread) (\<lambda>t. callV (E_handleFault t) (handleFault C t)))
            else
              bindK (getsK ksCurThread) (\<lambda>t.
                callV (E_setThreadState t ThreadState_Restart) (setThreadState C t ThreadState_Restart)))
    (thenK (callV E_schedule (schedule C))
    (thenK (callV E_activateThread (activateThread C))
    (returnK EXCEPTION_NONE))))))"

definition handleVMFaultEvent :: "config \<Rightarrow> 'x collaborators \<Rightarrow> word_t \<Rightarrow> (exception_t, 'x) kernel" where
  "handleVMFaultEvent cfg C vm_faultType =
     thenK (debugK cfg (entry_VMFault vm_faultType))
    (thenK (callV E_updateTimestamp (updateTimestamp C))
    (bindK (callK E_checkBudget (checkBudget C)) (\<lambda>b.
     thenK (if b then
              bindK (bindK (getsK ksCurThread) (\<lambda>t.
                       callK (E_handleVMFault t vm_faultType) (handleVMFault C t vm_faultType))) (\<lambda>status.
              whenK (status \<noteq> EXCEPTION_NONE)
                    (bindK (getsK ksCurThread) (\<lambda>t. callV (E_handleFault t) (handleFault C t))))
            else
              bindK (getsK ksCurThread) (\<lambda>t.
                callV (E_setThreadState t ThreadState_Restart) (setThreadState C t ThreadState_Restart)))
    (thenK (callV E_schedule (schedule C))
    (thenK (callV E_activateThread (activateThread C))
    (returnK EXCEPTION_NONE))))))"

subsection \<open>handleInvocation\<close>

definition handleInvocation :: "config \<Rightarrow> 'x collaborators \<Rightarrow> bool \<Rightarrow> bool \<Rightarrow> (exception_t, 'x) kernel" where
  "handleInvocation cfg C isCall isBlocking =
     bindK (getsK ksCurThread) (\<lambda>thread.
     bindK (getsK (\<lambda>s. messageInfoFromWord C (getRegister s thread msgInfoRegister))) (\<lambda>info.
     bindK (getsK (\<lambda>s. getRegister s thread capRegister)) (\<lambda>cptr.
     bindK (callK (E_lookupCapAndSlot thread cptr) (lookupCapAndSlot C thread cptr)) (\<lambda>lu_ret.
     thenK (debugK cfg (entry_Invocation (lcs_cap lu_ret) info))
     (if lcs_status lu_ret \<noteq> EXCEPTION_NONE then
        thenK (modifyK (\<lambda>s. s\<lparr>current_fault := fault_cap_fault_new cptr False\<rparr>))
       (thenK (whenK isBlocking (callV (E_handleFault thread) (handleFault C thread)))
              (returnK EXCEPTION_NONE))
      else
        bindK (callK (E_lookupIPCBuffer False thread) (lookupIPCBuffer C False thread)) (\<lambda>buffer.
        bindK (callK (E_lookupExtraCaps thread buffer info) (lookupExtraCaps C thread buffer info)) (\<lambda>status.
        if status \<noteq> EXCEPTION_NONE then
          thenK (whenK isBlocking (callV (E_handleFault thread) (handleFault C thread)))
                (returnK EXCEPTION_NONE)
        else
          (let length0 = message_info_get_msgLength info;
               length1 = (if length0 > n_msgRegisters cfg \<and> buffer = 0 then n_msgRegisters cfg else length0)
           in
           bindK (getsK current_extra_caps) (\<lambda>extra_caps.
           bindK (callK (E_decodeInvocation (message_info_get_msgLabel info) length1 cptr
                           (lcs_slot lu_ret) (lcs_cap lu_ret) extra_caps isBlocking isCall buffer)
                        (decodeInvocation C (message_info_get_msgLabel info) length1 cptr
                           (lcs_slot lu_ret) (lcs_cap lu_ret) extra_caps isBlocking isCall buffer)) (\<lambda>status.
           if status = EXCEPTION_PREEMPTED then returnK status
           else if status = EXCEPTION_SYSCALL_ERROR then
             thenK (whenK isCall (callV (E_replyFromKernel_error thread) (replyFromKernel_error C thread)))
                   (returnK EXCEPTION_NONE)
           else
             bindK (getsK (\<lambda>s. thread_state_get_tsType (tcbState (ksTCBs s thread)))) (\<lambda>ts.
             thenK (whenK (ts = ThreadState_Restart)
                     (thenK (whenK isCall (callV (E_replyFromKernel_success_empty thread)
                                                 (replyFromKernel_success_empty C thread)))
                            (callV (E_setThreadState thread ThreadState_Running)
                                   (setThreadState C thread ThreadState_Running))))
                   (returnK EXCEPTION_NONE))))))))))))"

subsection \<open>handleReply\<close>

text \<open>
  How control leaves the \<^verbatim>\<open>switch\<close> of \<^verbatim>\<open>handleReply\<close>: by \<^verbatim>\<open>return\<close>, which leaves
  the function, or by \<^verbatim>\<open>break\<close>, which goes on to the statement after the switch.
\<close>

datatype switch_exit = Returned | Broke

definition handleReply :: "config \<Rightarrow> 'x collaborators \<Rightarrow> (unit, 'x) kernel" where
  "handleReply cfg C =
     bindK (getsK (\<lambda>s. TCB_PTR_CTE_PTR (ksCurThread s) tcbCaller)) (\<lambda>callerSlot.
     bindK (getsK (\<lambda>s. ksCTEs s callerSlot)) (\<lambda>callerCap.
     bindK (case cap_get_capType callerCap of
              cap_reply_cap \<Rightarrow>
                if cap_reply_cap_get_capReplyMaster callerCap then returnK Broke
                else
                  (let caller = cap_reply_cap_get_capTCBPtr callerCap in
                   bindK (getsK ksCurThread) (\<lambda>cur.
                   thenK (assertK cfg ''caller != ksCurThread'' (caller \<noteq> cur))
                  (thenK (callV (E_doReplyTransfer cur caller callerSlot)
                                (doReplyTransfer C cur caller callerSlot))
                         (returnK Returned))))
            | cap_null_cap \<Rightarrow> returnK Returned
            | _ \<Rightarrow> returnK Broke) (\<lambda>exit.
     case exit of
       Returned \<Rightarrow> returnK ()
     | Broke \<Rightarrow> failK (Fail ''handleReply: invalid caller cap''))))"

subsection \<open>handleRecv\<close>

text \<open>
  The three lines that raise the missing-capability fault; they occur three times in
  \<^verbatim>\<open>handleRecv\<close>.
\<close>

definition missingCapabilityFault :: "'x collaborators \<Rightarrow> word_t \<Rightarrow> (unit, 'x) kernel" where
  "missingCapabilityFault C epCPtr =
     thenK (modifyK (\<lambda>s. s\<lparr>current_lookup_fault := lookup_fault_missing_capability_new 0\<rparr>))
    (thenK (modifyK (\<lambda>s. s\<lparr>current_fault := fault_cap_fault_new epCPtr True\<rparr>))
           (bindK (getsK ksCurThread) (\<lambda>t. callV (E_handleFault t) (handleFault C t))))"

definition handleRecv :: "'x collaborators \<Rightarrow> bool \<Rightarrow> (unit, 'x) kernel" where
  "handleRecv C isBlocking =
     bindK (getsK (\<lambda>s. getRegister s (ksCurThread s) capRegister)) (\<lambda>epCPtr.
     bindK (bindK (getsK ksCurThread) (\<lambda>t. callK (E_lookupCap t epCPtr) (lookupCap C t epCPtr))) (\<lambda>lu_ret.
     if lc_status lu_ret \<noteq> EXCEPTION_NONE then
       thenK (modifyK (\<lambda>s. s\<lparr>current_fault := fault_cap_fault_new epCPtr True\<rparr>))
             (bindK (getsK ksCurThread) (\<lambda>t. callV (E_handleFault t) (handleFault C t)))
     else
       (case cap_get_capType (lc_cap lu_ret) of
          cap_endpoint_cap \<Rightarrow>
            if \<not> cap_endpoint_cap_get_capCanReceive (lc_cap lu_ret) then
              missingCapabilityFault C epCPtr
            else
              thenK (bindK (getsK ksCurThread) (\<lambda>t. callV (E_deleteCallerCap t) (deleteCallerCap C t)))
                    (bindK (getsK ksCurThread) (\<lambda>t.
                       callV (E_receiveIPC t (lc_cap lu_ret) isBlocking)
                             (receiveIPC C t (lc_cap lu_ret) isBlocking)))
        | cap_notification_cap \<Rightarrow>
            bindK (getsK (\<lambda>s. notification_ptr_get_ntfnBoundTCB s
                                (cap_notification_cap_get_capNtfnPtr (lc_cap lu_ret)))) (\<lambda>boundTCB.
            bindK (getsK ksCurThread) (\<lambda>cur.
            if \<not> cap_notification_cap_get_capNtfnCanReceive (lc_cap lu_ret)
               \<or> (boundTCB \<noteq> 0 \<and> boundTCB \<noteq> cur) then
              missingCapabilityFault C epCPtr
            else
              bindK (getsK ksCurThread) (\<lambda>t.
                callV (E_receiveSignal t (lc_cap lu_ret) isBlocking)
                      (receiveSignal C t (lc_cap lu_ret) isBlocking))))
        | _ \<Rightarrow> missingCapabilityFault C epCPtr)))"

subsection \<open>handleYield\<close>

definition handleYield :: "config \<Rightarrow> 'x collaborators \<Rightarrow> (unit, 'x) kernel" where
  "handleYield cfg C =
     bindK (getsK (\<lambda>s. thread_state_get_tcbQueued (tcbState (ksTCBs s (ksCurThread s))))) (\<lambda>queued.
     thenK (assertK cfg ''!thread_state_get_tcbQueued(ksCurThread->tcbState)'' (\<not> queued))
    (bindK (bindK (getsK ksCurThread) (\<lambda>t. callK (E_ready t) (ready C t))) (\<lambda>r.
     thenK (if r then
              thenK (bindK (getsK (\<lambda>s. tcbSchedContext (ksTCBs s (ksCurThread s)))) (\<lambda>sc.
                       callV (E_recharge sc) (recharge C sc)))
                    (bindK (getsK ksCurThread) (\<lambda>t. callV (E_tcbSchedAppend t) (tcbSchedAppend C t)))
            else
              bindK (getsK (\<lambda>s. tcbSchedContext (ksTCBs s (ksCurThread s)))) (\<lambda>sc.
                callV (E_postpone sc) (postpone C sc)))
    (thenK (modifyK (\<lambda>s. s\<lparr>ksConsumed := 0\<rparr>))
           (callV E_rescheduleRequired (rescheduleRequired C))))))"

subsection \<open>handleSyscall\<close>

text \<open>
  The block under \<^verbatim>\<open>if (checkBudget())\<close>: the switch on the opcode, and the check for
  a preempted invocation after it. \<open>ret\<close> is the local variable \<^verbatim>\<open>ret\<close>, which only
  the three invocation labels assign.
\<close>

definition syscallSwitch :: "config \<Rightarrow> 'x collaborators \<Rightarrow> syscall_t \<Rightarrow> (unit, 'x) kernel" where
  "syscallSwitch cfg C syscall =
     bindK (case syscall of
              SysSend \<Rightarrow> handleInvocation cfg C False True
            | SysNBSend \<Rightarrow> handleInvocation cfg C False False
            | SysCall \<Rightarrow> handleInvocation cfg C True True
            | SysRecv \<Rightarrow> thenK (handleRecv C True) (returnK EXCEPTION_NONE)
            | SysReply \<Rightarrow> thenK (handleReply cfg C) (returnK EXCEPTION_NONE)
            | SysReplyRecv \<Rightarrow>
                thenK (handleReply cfg C) (thenK (handleRecv C True) (returnK EXCEPTION_NONE))
            | SysNBRecv \<Rightarrow> thenK (handleRecv C False) (returnK EXCEPTION_NONE)
            | SysYield \<Rightarrow> thenK (handleYield cfg C) (returnK EXCEPTION_NONE)
            | SysUndefined n \<Rightarrow> failK (Fail ''Invalid syscall'')) (\<lambda>ret.
     whenK (ret = EXCEPTION_PREEMPTED)
       (bindK (callK E_getActiveIRQ (getActiveIRQ C)) (\<lambda>irq.
        whenK (irq \<noteq> irqInvalid cfg) (callV (E_handleInterrupt irq) (handleInterrupt C irq)))))"

definition handleSyscall :: "config \<Rightarrow> 'x collaborators \<Rightarrow> syscall_t \<Rightarrow> (exception_t, 'x) kernel" where
  "handleSyscall cfg C syscall =
     thenK (debugK cfg (entry_Syscall syscall))
    (thenK (callV E_updateTimestamp (updateTimestamp C))
    (bindK (callK E_checkBudget (checkBudget C)) (\<lambda>b.
     thenK (if b then syscallSwitch cfg C syscall
            else
              bindK (getsK ksCurThread) (\<lambda>t.
                callV (E_setThreadState t ThreadState_Restart) (setThreadState C t ThreadState_Restart)))
    (thenK (callV E_schedule (schedule C))
    (thenK (callV E_activateThread (activateThread C))
    (returnK EXCEPTION_NONE))))))"

subsection \<open>A concrete configuration, state and set of collaborators\<close>

text \<open>
  Used to run the definitions on concrete inputs. The collaborators of \<open>C0\<close> leave the
  state alone, but for \<open>setThreadState\<close>, which writes the thread state; the budget
  check succeeds, the lookups find an endpoint capability with receive rights, and the
  decoder reports success.
\<close>

definition cfg0 :: config where
  "cfg0 = \<lparr>DEBUG = False, DANGEROUS_CODE_INJECTION = False, CONFIG_MAX_NUM_TRACE_POINTS = 0,
            assertions_enabled = True, irqInvalid = 255, n_msgRegisters = 4,
            seL4_MsgMaxLength = 120, MAX_LOG_SIZE = 1024, MAX_IPC_BUFFER_STORAGE = 1024,
            SysDebugPutChar = 9, SysDebugHalt = 10, SysDebugSnapshot = 11,
            SysDebugCapIdentify = 12, SysDebugNameThread = 13, SysDebugRun = 14,
            SysBenchmarkResetLog = 15, SysBenchmarkDumpLog = 16, SysBenchmarkLogSize = 17,
            SysBenchmarkFinalizeLog = 18, capTypeWord = (\<lambda>_. 0)\<rparr>"

definition tcb0 :: tcb_t where
  "tcb0 = \<lparr>tcbState = \<lparr>thread_state_get_tsType = ThreadState_Running,
                         thread_state_get_tcbQueued = False\<rparr>,
            tcbSchedContext = 7,
            tcbRegisters = (\<lambda>r. if r = capRegister then 5 else 0)\<rparr>"

definition s0 :: "unit kernel_state" where
  "s0 = \<lparr>ksCurThread = 1, ksTCBs = (\<lambda>_. tcb0), ksCTEs = (\<lambda>_. NullCap),
          ksNtfnBoundTCB = (\<lambda>_. 0), current_fault = fault_null_fault_new,
          current_lookup_fault = lookup_fault_invalid_root_new, current_extra_caps = [],
          current_syscall_error_type = seL4_NoError, ksConsumed = 42,
          ksKernelEntry = \<lparr>ke_path = Debug_Interrupt, ke_irq = 0, ke_word = 0, ke_number = 0,
                            ke_code = 0, ke_fault_type = 0, ke_cap_type = cap_null_cap,
                            ke_invocation_tag = 0, ke_syscall_no = SysSend\<rparr>,
          ksLogIndex = 0, ksLogIndexFinalized = 0,
          ksLog = (\<lambda>_. \<lparr>log_key = 0, log_data = 0\<rparr>), ksMem = (\<lambda>_. 0), ksRest = ()\<rparr>"

definition setThreadState0 :: "tcb_ptr \<Rightarrow> tsType_t \<Rightarrow> unit kernel_state \<Rightarrow> unit kernel_state" where
  "setThreadState0 t ts s =
     s\<lparr>ksTCBs := (ksTCBs s)
         (t := (ksTCBs s t)\<lparr>tcbState := (tcbState (ksTCBs s t))\<lparr>thread_state_get_tsType := ts\<rparr>\<rparr>)\<rparr>"

definition C0 :: "unit collaborators" where
  "C0 = \<lparr>getActiveIRQ = (\<lambda>s. (3, s)),
          handleInterrupt = (\<lambda>irq s. s),
          handleSpuriousIRQ = (\<lambda>s. s),
          updateTimestamp = (\<lambda>s. s),
          checkBudget = (\<lambda>s. (True, s)),
          handleFault = (\<lambda>t s. s),
          handleVMFault = (\<lambda>t ty s. (EXCEPTION_FAULT, s)),
          setThreadState = setThreadState0,
          schedule = (\<lambda>s. s),
          activateThread = (\<lambda>s. s),
          messageInfoFromWord = (\<lambda>w. \<lparr>message_info_get_msgLabel = 0,
             message_info_get_msgCapsUnwrapped = 0, message_info_get_msgExtraCaps = 0,
             message_info_get_msgLength = w\<rparr>),
          lookupCapAndSlot = (\<lambda>t c s. (\<lparr>lcs_status = EXCEPTION_NONE,
             lcs_cap = EndpointCap 64 0 True True, lcs_slot = CTE_PTR 128\<rparr>, s)),
          lookupCap = (\<lambda>t c s. (\<lparr>lc_status = EXCEPTION_NONE,
             lc_cap = EndpointCap 64 0 True True\<rparr>, s)),
          lookupIPCBuffer = (\<lambda>w t s. (0, s)),
          lookupExtraCaps = (\<lambda>t b i s. (EXCEPTION_NONE, s)),
          decodeInvocation = (\<lambda>label len cptr slot cap excaps isBlocking isCall buffer s.
             (EXCEPTION_NONE, s)),
          replyFromKernel_error = (\<lambda>t s. s),
          replyFromKernel_success_empty = (\<lambda>t s. s),
          doReplyTransfer = (\<lambda>sender receiver slot s. s),
          deleteCallerCap = (\<lambda>t s. s),
          receiveIPC = (\<lambda>t cap b s. s),
          receiveSignal = (\<lambda>t cap b s. s),
          ready = (\<lambda>t s. (True, s)),
          recharge = (\<lambda>sc s. s),
          postpone = (\<lambda>sc s. s),
          tcbSchedAppend = (\<lambda>t s. s),
          rescheduleRequired = (\<lambda>s. s),
          kernel_putchar = (\<lambda>c s. s),
          capDL = (\<lambda>s. s),
          strnlen = (\<lambda>p n s. (0, s)),
          setThreadName = (\<lambda>t p s. s),
          debugRun = (\<lambda>f a s. s)\<rparr>"

subsection \<open>Notions used by the properties\<close>

text \<open>
  The system-call numbers that a conditional block of \<^verbatim>\<open>handleUnknownSyscall\<close>
  serves in the given build: for these the function returns or halts inside the block
  and never reaches the budget gate.
\<close>

definition diagnosticSyscall :: "config \<Rightarrow> word_t \<Rightarrow> bool" where
  "diagnosticSyscall cfg w =
     ((DEBUG cfg \<and> (w = SysDebugPutChar cfg \<or> w = SysDebugHalt cfg \<or> w = SysDebugSnapshot cfg
                    \<or> w = SysDebugCapIdentify cfg \<or> w = SysDebugNameThread cfg))
      \<or> (DANGEROUS_CODE_INJECTION cfg \<and> w = SysDebugRun cfg)
      \<or> (0 < CONFIG_MAX_NUM_TRACE_POINTS cfg
          \<and> (w = SysBenchmarkResetLog cfg \<or> w = SysBenchmarkDumpLog cfg
             \<or> w = SysBenchmarkLogSize cfg \<or> w = SysBenchmarkFinalizeLog cfg)))"

text \<open>
  The outcome of an entry that the budget gate turns away, where \<open>s2\<close> is the state
  after \<^verbatim>\<open>checkBudget\<close>: the only calls are the timestamp update, the budget check,
  \<^verbatim>\<open>setThreadState(ksCurThread, ThreadState_Restart)\<close>, \<^verbatim>\<open>schedule\<close> and
  \<^verbatim>\<open>activateThread\<close>, and the entry returns \<^verbatim>\<open>EXCEPTION_NONE\<close>.
\<close>

definition budgetDeferred :: "'x collaborators \<Rightarrow> event list \<Rightarrow> 'x kernel_state \<Rightarrow> (exception_t, 'x kst) outcome" where
  "budgetDeferred C tr s2 =
     Ret EXCEPTION_NONE
       (tr @ [E_updateTimestamp, E_checkBudget,
              E_setThreadState (ksCurThread s2) ThreadState_Restart,
              E_schedule, E_activateThread],
        activateThread C (schedule C (setThreadState C (ksCurThread s2) ThreadState_Restart s2)))"

text \<open>
  When \<^verbatim>\<open>handleReply\<close>, \<^verbatim>\<open>handleYield\<close> and the switch of \<^verbatim>\<open>handleSyscall\<close> reach a
  fatal stop, as conditions on the state in which they start: \<^verbatim>\<open>handleReply\<close> on a
  caller capability that is neither null nor a reply capability, on a master reply
  capability, and (with assertions checked) on a reply capability that names the
  current thread; \<^verbatim>\<open>handleYield\<close> (with assertions checked) when the current thread
  is marked as queued; the switch on these two and on an opcode that is none of its
  labels.
\<close>

definition handleReplyFatal :: "config \<Rightarrow> 'x kernel_state \<Rightarrow> bool" where
  "handleReplyFatal cfg s =
     (let callerCap = ksCTEs s (TCB_PTR_CTE_PTR (ksCurThread s) tcbCaller) in
      case cap_get_capType callerCap of
        cap_null_cap \<Rightarrow> False
      | cap_reply_cap \<Rightarrow>
          cap_reply_cap_get_capReplyMaster callerCap
          \<or> (assertions_enabled cfg \<and> cap_reply_cap_get_capTCBPtr callerCap = ksCurThread s)
      | _ \<Rightarrow> True)"

definition handleYieldFatal :: "config \<Rightarrow> 'x kernel_state \<Rightarrow> bool" where
  "handleYieldFatal cfg s =
     (assertions_enabled cfg \<and> thread_state_get_tcbQueued (tcbState (ksTCBs s (ksCurThread s))))"

definition syscallSwitchFatal :: "config \<Rightarrow> syscall_t \<Rightarrow> 'x kernel_state \<Rightarrow> bool" where
  "syscallSwitchFatal cfg syscall s =
     (case syscall of
        SysReply \<Rightarrow> handleReplyFatal cfg s
      | SysReplyRecv \<Rightarrow> handleReplyFatal cfg s
      | SysYield \<Rightarrow> handleYieldFatal cfg s
      | SysUndefined n \<Rightarrow> True
      | _ \<Rightarrow> False)"

text \<open>
  A piece of kernel code returns quietly from \<open>(tr, s)\<close> when it returns (no fatal stop)
  and the calls it adds to the trace include neither \<^verbatim>\<open>schedule\<close> nor
  \<^verbatim>\<open>activateThread\<close>.
\<close>

definition quietAt :: "('a, 'x) kernel \<Rightarrow> event list \<Rightarrow> 'x kernel_state \<Rightarrow> bool" where
  "quietAt m tr s =
     (\<exists>a path s'. m (tr, s) = Ret a (tr @ path, s')
                  \<and> E_schedule \<notin> set path \<and> E_activateThread \<notin> set path)"

definition returnsQuietly :: "('a, 'x) kernel \<Rightarrow> bool" where
  "returnsQuietly m = (\<forall>tr s. quietAt m tr s)"

subsection \<open>Variants of the concrete state and collaborators\<close>

definition C_noBudget :: "unit collaborators" where
  "C_noBudget = C0\<lparr>checkBudget := (\<lambda>s. (False, s))\<rparr>"

definition s_master :: "unit kernel_state" where
  "s_master = s0\<lparr>ksCTEs := (\<lambda>_. ReplyCap True 2)\<rparr>"

definition C_lookupFails :: "unit collaborators" where
  "C_lookupFails = C0\<lparr>lookupCapAndSlot := (\<lambda>t c s.
      (\<lparr>lcs_status = EXCEPTION_LOOKUP_FAULT, lcs_cap = NullCap, lcs_slot = CTE_PTR 0\<rparr>,
       s\<lparr>current_lookup_fault := lookup_fault_missing_capability_new 64\<rparr>))\<rparr>"

definition C_ntfn :: "unit collaborators" where
  "C_ntfn = C0\<lparr>lookupCap := (\<lambda>t c s.
      (\<lparr>lc_status = EXCEPTION_NONE, lc_cap = NotificationCap 96 0 True True\<rparr>, s))\<rparr>"

definition s_bound :: "unit kernel_state" where
  "s_bound = s0\<lparr>ksNtfnBoundTCB := (\<lambda>_. 2)\<rparr>"

definition s_reply :: "unit kernel_state" where
  "s_reply = s0\<lparr>ksCTEs := (\<lambda>_. ReplyCap False 2)\<rparr>"

definition s_queued :: "unit kernel_state" where
  "s_queued = s0\<lparr>ksTCBs := (\<lambda>_. tcb0\<lparr>tcbState := \<lparr>thread_state_get_tsType = ThreadState_Running,
                                                      thread_state_get_tcbQueued = True\<rparr>\<rparr>)\<rparr>"

definition C_preempted :: "unit collaborators" where
  "C_preempted = C0\<lparr>decodeInvocation := (\<lambda>label len cptr slot cap excaps isBlocking isCall buffer s.
      (EXCEPTION_PREEMPTED, s))\<rparr>"

definition C_restart :: "unit collaborators" where
  "C_restart = C0\<lparr>decodeInvocation := (\<lambda>label len cptr slot cap excaps isBlocking isCall buffer s.
      (EXCEPTION_NONE, setThreadState0 (ksCurThread s) ThreadState_Restart s))\<rparr>"

section \<open>Properties\<close>

lemmas kernel_defs =
  returnK_def bindK_def thenK_def failK_def getsK_def modifyK_def callK_def callV_def
  whenK_def assertK_def debugK_def

subsection \<open>The budget gate, entry by entry\<close>

lemma handleSyscall_no_budget:
  assumes "checkBudget C (updateTimestamp C (debugState cfg (entry_Syscall syscall) s)) = (False, s2)"
  shows "handleSyscall cfg C syscall (tr, s) = budgetDeferred C tr s2"
  using assms by (simp add: handleSyscall_def kernel_defs budgetDeferred_def)

lemma handleUnknownSyscall_not_diagnostic:
  assumes "\<not> diagnosticSyscall cfg w"
  shows "handleUnknownSyscall cfg C w = thenK (debugK cfg (entry_UnknownSyscall w)) (unknownSyscallFault C w)"
  using assms
  by (cases "DEBUG cfg"; cases "DANGEROUS_CODE_INJECTION cfg";
      cases "0 < CONFIG_MAX_NUM_TRACE_POINTS cfg";
      simp add: handleUnknownSyscall_def diagnosticSyscall_def)

lemma handleUnknownSyscall_no_budget:
  assumes "\<not> diagnosticSyscall cfg w"
      and "checkBudget C (updateTimestamp C (debugState cfg (entry_UnknownSyscall w) s)) = (False, s2)"
  shows "handleUnknownSyscall cfg C w (tr, s) = budgetDeferred C tr s2"
  using assms(2)
  by (simp add: handleUnknownSyscall_not_diagnostic[OF assms(1)] unknownSyscallFault_def
        kernel_defs budgetDeferred_def)

lemma handleUserLevelFault_no_budget:
  assumes "checkBudget C (updateTimestamp C (debugState cfg (entry_UserLevelFault w_a w_b) s)) = (False, s2)"
  shows "handleUserLevelFault cfg C w_a w_b (tr, s) = budgetDeferred C tr s2"
  using assms by (simp add: handleUserLevelFault_def kernel_defs budgetDeferred_def)

lemma handleVMFaultEvent_no_budget:
  assumes "checkBudget C (updateTimestamp C (debugState cfg (entry_VMFault ty) s)) = (False, s2)"
  shows "handleVMFaultEvent cfg C ty (tr, s) = budgetDeferred C tr s2"
  using assms by (simp add: handleVMFaultEvent_def kernel_defs budgetDeferred_def)

subsection \<open>C1: handleReply on a master reply capability\<close>

text \<open>
  C1 says that \<^verbatim>\<open>handleReply\<close> is a no-op when the caller slot holds a reply
  capability with the master flag set: no reply transfer, no change of state and no
  abort. In the code the \<^verbatim>\<open>break\<close> under \<^verbatim>\<open>cap_reply_cap_get_capReplyMaster\<close> leaves
  the switch and reaches \<^verbatim>\<open>fail("handleReply: invalid caller cap")\<close>: on the concrete
  state \<open>s_master\<close> the function stops the kernel.
\<close>

theorem handleReply_master_reply_counterexample:
  "handleReply cfg0 C0 ([], s_master)
     = Fatal (Fail ''handleReply: invalid caller cap'') ([], s_master)"
  by (simp add: handleReply_def kernel_defs s_master_def s0_def)

text \<open>
  C1 as amended: whenever the caller slot of the current thread holds a reply capability
  whose master flag is set, \<^verbatim>\<open>handleReply\<close> calls no collaborator (so no
  \<^verbatim>\<open>doReplyTransfer\<close>) and changes no state, and then stops the kernel in the fatal
  error "handleReply: invalid caller cap".
\<close>

theorem handleReply_master_reply_is_fatal:
  assumes "callerCap = ksCTEs s (TCB_PTR_CTE_PTR (ksCurThread s) tcbCaller)"
      and "cap_get_capType callerCap = cap_reply_cap"
      and "cap_reply_cap_get_capReplyMaster callerCap"
  shows "handleReply cfg C (tr, s) = Fatal (Fail ''handleReply: invalid caller cap'') (tr, s)"
  using assms by (simp add: handleReply_def kernel_defs)

theorem handleReply_master_reply_is_fatal_witness:
  "ReplyCap True 9 = ksCTEs (s0\<lparr>ksCTEs := (\<lambda>_. ReplyCap True 9)\<rparr>)
       (TCB_PTR_CTE_PTR (ksCurThread (s0\<lparr>ksCTEs := (\<lambda>_. ReplyCap True 9)\<rparr>)) tcbCaller)
   \<and> cap_get_capType (ReplyCap True 9) = cap_reply_cap
   \<and> cap_reply_cap_get_capReplyMaster (ReplyCap True 9)
   \<and> handleReply cfg0 C0 ([E_updateTimestamp, E_checkBudget], s0\<lparr>ksCTEs := (\<lambda>_. ReplyCap True 9)\<rparr>)
       = Fatal (Fail ''handleReply: invalid caller cap'')
           ([E_updateTimestamp, E_checkBudget], s0\<lparr>ksCTEs := (\<lambda>_. ReplyCap True 9)\<rparr>)"
  using handleReply_master_reply_is_fatal
    [of "ReplyCap True 9" "s0\<lparr>ksCTEs := (\<lambda>_. ReplyCap True 9)\<rparr>" cfg0 C0
        "[E_updateTimestamp, E_checkBudget]"]
  by simp

subsection \<open>C2: the budget gate\<close>

text \<open>
  C2: on each of the four budget-gated entries (\<^verbatim>\<open>handleSyscall\<close> with any opcode,
  \<^verbatim>\<open>handleUnknownSyscall\<close> once past its debug and benchmark blocks,
  \<^verbatim>\<open>handleUserLevelFault\<close>, \<^verbatim>\<open>handleVMFaultEvent\<close>), when \<^verbatim>\<open>checkBudget()\<close> returns
  false the handler does none of the requested work: it calls only
  \<^verbatim>\<open>setThreadState(ksCurThread, ThreadState_Restart)\<close>, then \<^verbatim>\<open>schedule\<close> and
  \<^verbatim>\<open>activateThread\<close>, writes no fault, and returns \<^verbatim>\<open>EXCEPTION_NONE\<close>.
\<close>

theorem budget_gate_defers_every_entry:
  "(checkBudget C (updateTimestamp C (debugState cfg (entry_Syscall syscall) s)) = (False, s2)
      \<longrightarrow> handleSyscall cfg C syscall (tr, s) = budgetDeferred C tr s2)
   \<and> (\<not> diagnosticSyscall cfg w
       \<and> checkBudget C (updateTimestamp C (debugState cfg (entry_UnknownSyscall w) s)) = (False, s2)
      \<longrightarrow> handleUnknownSyscall cfg C w (tr, s) = budgetDeferred C tr s2)
   \<and> (checkBudget C (updateTimestamp C (debugState cfg (entry_UserLevelFault w_a w_b) s)) = (False, s2)
      \<longrightarrow> handleUserLevelFault cfg C w_a w_b (tr, s) = budgetDeferred C tr s2)
   \<and> (checkBudget C (updateTimestamp C (debugState cfg (entry_VMFault vm_faultType) s)) = (False, s2)
      \<longrightarrow> handleVMFaultEvent cfg C vm_faultType (tr, s) = budgetDeferred C tr s2)"
  by (intro conjI impI)
     (erule handleSyscall_no_budget,
      (erule conjE, erule (1) handleUnknownSyscall_no_budget),
      erule handleUserLevelFault_no_budget,
      erule handleVMFaultEvent_no_budget)

theorem budget_gate_defers_every_entry_witness:
  "(checkBudget C_noBudget (updateTimestamp C_noBudget (debugState cfg0 (entry_Syscall SysCall) s0)) = (False, s0)
      \<and> handleSyscall cfg0 C_noBudget SysCall ([], s0)
          = Ret EXCEPTION_NONE
              ([E_updateTimestamp, E_checkBudget, E_setThreadState 1 ThreadState_Restart,
                E_schedule, E_activateThread],
               setThreadState0 1 ThreadState_Restart s0))
   \<and> (\<not> diagnosticSyscall cfg0 77
       \<and> checkBudget C_noBudget (updateTimestamp C_noBudget (debugState cfg0 (entry_UnknownSyscall 77) s0)) = (False, s0)
       \<and> handleUnknownSyscall cfg0 C_noBudget 77 ([], s0)
          = Ret EXCEPTION_NONE
              ([E_updateTimestamp, E_checkBudget, E_setThreadState 1 ThreadState_Restart,
                E_schedule, E_activateThread],
               setThreadState0 1 ThreadState_Restart s0))
   \<and> (checkBudget C_noBudget (updateTimestamp C_noBudget (debugState cfg0 (entry_UserLevelFault 3 4) s0)) = (False, s0)
       \<and> handleUserLevelFault cfg0 C_noBudget 3 4 ([], s0)
          = Ret EXCEPTION_NONE
              ([E_updateTimestamp, E_checkBudget, E_setThreadState 1 ThreadState_Restart,
                E_schedule, E_activateThread],
               setThreadState0 1 ThreadState_Restart s0))
   \<and> (checkBudget C_noBudget (updateTimestamp C_noBudget (debugState cfg0 (entry_VMFault 2) s0)) = (False, s0)
       \<and> handleVMFaultEvent cfg0 C_noBudget 2 ([], s0)
          = Ret EXCEPTION_NONE
              ([E_updateTimestamp, E_checkBudget, E_setThreadState 1 ThreadState_Restart,
                E_schedule, E_activateThread],
               setThreadState0 1 ThreadState_Restart s0))"
  using budget_gate_defers_every_entry
    [of C_noBudget cfg0 SysCall s0 s0 "[]" 77 3 4 2]
  by (simp add: C_noBudget_def C0_def cfg0_def debugState_def diagnosticSyscall_def
        budgetDeferred_def s0_def)

subsection \<open>C10: no opcode reaches the switch without budget\<close>

text \<open>
  C10: for every value of the opcode, also one outside the labels of the switch, when
  \<^verbatim>\<open>checkBudget()\<close> returns false \<^verbatim>\<open>handleSyscall\<close> does not reach the switch (so not
  the fatal "Invalid syscall"): it marks the current thread \<^verbatim>\<open>ThreadState_Restart\<close>,
  calls \<^verbatim>\<open>schedule\<close> and \<^verbatim>\<open>activateThread\<close> and returns \<^verbatim>\<open>EXCEPTION_NONE\<close>.
\<close>

theorem handleSyscall_no_budget_never_fatal:
  assumes "checkBudget C (updateTimestamp C (debugState cfg (entry_Syscall syscall) s)) = (False, s2)"
  shows "handleSyscall cfg C syscall (tr, s)
           = Ret EXCEPTION_NONE
               (tr @ [E_updateTimestamp, E_checkBudget,
                      E_setThreadState (ksCurThread s2) ThreadState_Restart,
                      E_schedule, E_activateThread],
                activateThread C (schedule C (setThreadState C (ksCurThread s2) ThreadState_Restart s2)))"
  using handleSyscall_no_budget[OF assms] by (simp add: budgetDeferred_def)

theorem handleSyscall_no_budget_never_fatal_witness:
  "checkBudget C_noBudget (updateTimestamp C_noBudget (debugState cfg0 (entry_Syscall (SysUndefined 99)) s0)) = (False, s0)
   \<and> handleSyscall cfg0 C_noBudget (SysUndefined 99) ([], s0)
       = Ret EXCEPTION_NONE
           ([E_updateTimestamp, E_checkBudget, E_setThreadState 1 ThreadState_Restart,
             E_schedule, E_activateThread],
            setThreadState0 1 ThreadState_Restart s0)"
  using handleSyscall_no_budget_never_fatal [of C_noBudget cfg0 "SysUndefined 99" s0 s0 "[]"]
  by (simp add: C_noBudget_def C0_def cfg0_def debugState_def s0_def)

subsection \<open>C3: handleInvocation when the capability lookup fails\<close>

text \<open>
  C3: when \<^verbatim>\<open>lookupCapAndSlot\<close> fails, \<^verbatim>\<open>handleInvocation\<close> writes the capability
  fault to \<^verbatim>\<open>current_fault\<close> and, if \<^verbatim>\<open>isBlocking\<close>, delivers it with
  \<^verbatim>\<open>handleFault(thread)\<close>; if not \<^verbatim>\<open>isBlocking\<close> it delivers nothing. In both cases
  the lookup (and the fault delivery) are the only calls, so no reply is sent and the
  decoder is not called, and the function returns \<^verbatim>\<open>EXCEPTION_NONE\<close>.
\<close>

theorem handleInvocation_lookup_failure:
  assumes "thread = ksCurThread s"
      and "cptr = getRegister s thread capRegister"
      and "info = messageInfoFromWord C (getRegister s thread msgInfoRegister)"
      and "lookupCapAndSlot C thread cptr s = (lu_ret, s1)"
      and "lcs_status lu_ret \<noteq> EXCEPTION_NONE"
      and "s2 = (debugState cfg (entry_Invocation (lcs_cap lu_ret) info) s1)
                  \<lparr>current_fault := fault_cap_fault_new cptr False\<rparr>"
  shows "handleInvocation cfg C isCall isBlocking (tr, s)
           = Ret EXCEPTION_NONE
               (tr @ E_lookupCapAndSlot thread cptr # (if isBlocking then [E_handleFault thread] else []),
                if isBlocking then handleFault C thread s2 else s2)"
  using assms by (simp add: handleInvocation_def kernel_defs)

theorem handleInvocation_lookup_failure_witness:
  "(1::word_t) = ksCurThread s0
   \<and> (5::word_t) = getRegister s0 1 capRegister
   \<and> messageInfoFromWord C_lookupFails 0 = messageInfoFromWord C_lookupFails (getRegister s0 1 msgInfoRegister)
   \<and> lookupCapAndSlot C_lookupFails 1 5 s0
        = (\<lparr>lcs_status = EXCEPTION_LOOKUP_FAULT, lcs_cap = NullCap, lcs_slot = CTE_PTR 0\<rparr>,
           s0\<lparr>current_lookup_fault := lookup_fault_missing_capability_new 64\<rparr>)
   \<and> lcs_status \<lparr>lcs_status = EXCEPTION_LOOKUP_FAULT, lcs_cap = NullCap, lcs_slot = CTE_PTR 0\<rparr> \<noteq> EXCEPTION_NONE
   \<and> handleInvocation cfg0 C_lookupFails True True ([], s0)
        = Ret EXCEPTION_NONE
            ([E_lookupCapAndSlot 1 5, E_handleFault 1],
             s0\<lparr>current_lookup_fault := lookup_fault_missing_capability_new 64,
                current_fault := fault_cap_fault_new 5 False\<rparr>)
   \<and> handleInvocation cfg0 C_lookupFails True False ([], s0)
        = Ret EXCEPTION_NONE
            ([E_lookupCapAndSlot 1 5],
             s0\<lparr>current_lookup_fault := lookup_fault_missing_capability_new 64,
                current_fault := fault_cap_fault_new 5 False\<rparr>)"
  using handleInvocation_lookup_failure
    [of 1 s0 5 "messageInfoFromWord C_lookupFails 0" C_lookupFails
        "\<lparr>lcs_status = EXCEPTION_LOOKUP_FAULT, lcs_cap = NullCap, lcs_slot = CTE_PTR 0\<rparr>"
        "s0\<lparr>current_lookup_fault := lookup_fault_missing_capability_new 64\<rparr>"
        "s0\<lparr>current_lookup_fault := lookup_fault_missing_capability_new 64,
            current_fault := fault_cap_fault_new 5 False\<rparr>" cfg0 True True "[]"]
    handleInvocation_lookup_failure
    [of 1 s0 5 "messageInfoFromWord C_lookupFails 0" C_lookupFails
        "\<lparr>lcs_status = EXCEPTION_LOOKUP_FAULT, lcs_cap = NullCap, lcs_slot = CTE_PTR 0\<rparr>"
        "s0\<lparr>current_lookup_fault := lookup_fault_missing_capability_new 64\<rparr>"
        "s0\<lparr>current_lookup_fault := lookup_fault_missing_capability_new 64,
            current_fault := fault_cap_fault_new 5 False\<rparr>" cfg0 True False "[]"]
  by (simp add: C_lookupFails_def C0_def cfg0_def debugState_def s0_def tcb0_def getRegister_def)

subsection \<open>C5: handleRecv without the right to receive\<close>

text \<open>
  C5: when the capability that \<^verbatim>\<open>lookupCap\<close> finds is a notification capability that
  lacks the receive right or whose notification is bound to a thread other than the
  current one, or an endpoint capability that lacks the receive right, \<^verbatim>\<open>handleRecv\<close>
  sets \<^verbatim>\<open>current_lookup_fault\<close> to the missing-capability fault, sets
  \<^verbatim>\<open>current_fault\<close> to a capability fault and calls \<^verbatim>\<open>handleFault(ksCurThread)\<close>; the
  lookup and the fault delivery are its only calls, so neither \<^verbatim>\<open>receiveSignal\<close> nor
  \<^verbatim>\<open>receiveIPC\<close> is called.
\<close>

theorem handleRecv_missing_capability:
  assumes "epCPtr = getRegister s (ksCurThread s) capRegister"
      and "lookupCap C (ksCurThread s) epCPtr s = (lu_ret, s1)"
      and "lc_status lu_ret = EXCEPTION_NONE"
      and "cap = lc_cap lu_ret"
      and "boundTCB = notification_ptr_get_ntfnBoundTCB s1 (cap_notification_cap_get_capNtfnPtr cap)"
      and "(cap_get_capType cap = cap_notification_cap
              \<and> (\<not> cap_notification_cap_get_capNtfnCanReceive cap
                  \<or> (boundTCB \<noteq> 0 \<and> boundTCB \<noteq> ksCurThread s1)))
           \<or> (cap_get_capType cap = cap_endpoint_cap \<and> \<not> cap_endpoint_cap_get_capCanReceive cap)"
  shows "handleRecv C isBlocking (tr, s)
           = Ret ()
               (tr @ [E_lookupCap (ksCurThread s) epCPtr, E_handleFault (ksCurThread s1)],
                handleFault C (ksCurThread s1)
                  (s1\<lparr>current_lookup_fault := lookup_fault_missing_capability_new 0,
                      current_fault := fault_cap_fault_new epCPtr True\<rparr>))"
  using assms(2,3,6) unfolding assms(1,4,5)
  by (elim disjE conjE; simp add: handleRecv_def missingCapabilityFault_def kernel_defs)

theorem handleRecv_missing_capability_witness:
  "(5::word_t) = getRegister s_bound (ksCurThread s_bound) capRegister
   \<and> lookupCap C_ntfn (ksCurThread s_bound) 5 s_bound
        = (\<lparr>lc_status = EXCEPTION_NONE, lc_cap = NotificationCap 96 0 True True\<rparr>, s_bound)
   \<and> lc_status \<lparr>lc_status = EXCEPTION_NONE, lc_cap = NotificationCap 96 0 True True\<rparr> = EXCEPTION_NONE
   \<and> NotificationCap 96 0 True True = lc_cap \<lparr>lc_status = EXCEPTION_NONE, lc_cap = NotificationCap 96 0 True True\<rparr>
   \<and> (2::word_t) = notification_ptr_get_ntfnBoundTCB s_bound
                      (cap_notification_cap_get_capNtfnPtr (NotificationCap 96 0 True True))
   \<and> cap_get_capType (NotificationCap 96 0 True True) = cap_notification_cap
   \<and> (2::word_t) \<noteq> 0 \<and> (2::word_t) \<noteq> ksCurThread s_bound
   \<and> handleRecv C_ntfn True ([], s_bound)
        = Ret () ([E_lookupCap 1 5, E_handleFault 1],
                  s_bound\<lparr>current_lookup_fault := lookup_fault_missing_capability_new 0,
                          current_fault := fault_cap_fault_new 5 True\<rparr>)"
proof -
  have h1: "(5::word_t) = getRegister s_bound (ksCurThread s_bound) capRegister"
    by (simp add: s_bound_def s0_def tcb0_def getRegister_def)
  have h2: "lookupCap C_ntfn (ksCurThread s_bound) 5 s_bound
        = (\<lparr>lc_status = EXCEPTION_NONE, lc_cap = NotificationCap 96 0 True True\<rparr>, s_bound)"
    by (simp add: C_ntfn_def C0_def)
  have h3: "lc_status \<lparr>lc_status = EXCEPTION_NONE, lc_cap = NotificationCap 96 0 True True\<rparr> = EXCEPTION_NONE"
    by simp
  have h4: "NotificationCap 96 0 True True
        = lc_cap \<lparr>lc_status = EXCEPTION_NONE, lc_cap = NotificationCap 96 0 True True\<rparr>"
    by simp
  have h5: "(2::word_t) = notification_ptr_get_ntfnBoundTCB s_bound
                      (cap_notification_cap_get_capNtfnPtr (NotificationCap 96 0 True True))"
    by (simp add: s_bound_def notification_ptr_get_ntfnBoundTCB_def)
  have h6: "cap_get_capType (NotificationCap 96 0 True True) = cap_notification_cap"
    by simp
  have h7: "(2::word_t) \<noteq> 0" by simp
  have h8: "(2::word_t) \<noteq> ksCurThread s_bound"
    by (simp add: s_bound_def s0_def)
  have c: "handleRecv C_ntfn True ([], s_bound)
        = Ret () ([E_lookupCap 1 5, E_handleFault 1],
                  s_bound\<lparr>current_lookup_fault := lookup_fault_missing_capability_new 0,
                          current_fault := fault_cap_fault_new 5 True\<rparr>)"
    using handleRecv_missing_capability [OF h1 h2 h3 h4 h5, of True "[]"] h6 h7 h8
    by (simp add: C_ntfn_def C0_def s_bound_def s0_def)
  show ?thesis by (intro conjI h1 h2 h3 h4 h5 h6 h7 h8 c)
qed

subsection \<open>C7: handleYield\<close>

text \<open>
  C7 speaks of every invocation of \<^verbatim>\<open>handleYield\<close>. The function begins with
  \<^verbatim>\<open>assert(!thread_state_get_tcbQueued(ksCurThread->tcbState))\<close>: in a build that
  checks assertions, and with the current thread marked as queued (the state
  \<open>s_queued\<close>), it stops there, before \<^verbatim>\<open>ready\<close> is asked and before any reschedule
  is requested.
\<close>

theorem handleYield_queued_counterexample:
  "handleYield cfg0 C0 ([], s_queued)
     = Fatal (AssertionFailed ''!thread_state_get_tcbQueued(ksCurThread->tcbState)'') ([], s_queued)"
  by (simp add: handleYield_def kernel_defs s_queued_def s0_def tcb0_def cfg0_def)

text \<open>
  C7 as amended: for every invocation of \<^verbatim>\<open>handleYield\<close> that passes the assertion
  (the current thread is not queued, or assertions are not checked): if
  \<^verbatim>\<open>ready(ksCurThread)\<close> holds, the scheduling context of the thread is recharged and
  the thread is appended to its run queue (\<^verbatim>\<open>tcbSchedAppend\<close>), otherwise the
  scheduling context is postponed; in both cases \<^verbatim>\<open>ksConsumed\<close> is then set to zero
  and \<^verbatim>\<open>rescheduleRequired\<close> is called last.
\<close>

theorem handleYield_when_assertion_passes:
  assumes "\<not> (assertions_enabled cfg \<and> thread_state_get_tcbQueued (tcbState (ksTCBs s (ksCurThread s))))"
      and "ready C (ksCurThread s) s = (r, s1)"
      and "sc = tcbSchedContext (ksTCBs s1 (ksCurThread s1))"
      and "s2 = (if r then tcbSchedAppend C (ksCurThread (recharge C sc s1)) (recharge C sc s1)
                 else postpone C sc s1)"
  shows "handleYield cfg C (tr, s)
           = Ret ()
               (tr @ E_ready (ksCurThread s)
                   # (if r then [E_recharge sc, E_tcbSchedAppend (ksCurThread (recharge C sc s1))]
                      else [E_postpone sc])
                   @ [E_rescheduleRequired],
                rescheduleRequired C (s2\<lparr>ksConsumed := 0\<rparr>))"
  using assms(1,2) unfolding assms(4) assms(3)
  by (cases r; simp add: handleYield_def kernel_defs)

theorem handleYield_when_assertion_passes_witness:
  "\<not> (assertions_enabled cfg0 \<and> thread_state_get_tcbQueued (tcbState (ksTCBs s0 (ksCurThread s0))))
   \<and> ready C0 (ksCurThread s0) s0 = (True, s0)
   \<and> (7::word_t) = tcbSchedContext (ksTCBs s0 (ksCurThread s0))
   \<and> handleYield cfg0 C0 ([], s0)
       = Ret () ([E_ready 1, E_recharge 7, E_tcbSchedAppend 1, E_rescheduleRequired],
                 s0\<lparr>ksConsumed := 0\<rparr>)
   \<and> ready (C0\<lparr>ready := (\<lambda>t s. (False, s))\<rparr>) (ksCurThread s0) s0 = (False, s0)
   \<and> handleYield cfg0 (C0\<lparr>ready := (\<lambda>t s. (False, s))\<rparr>) ([], s0)
       = Ret () ([E_ready 1, E_postpone 7, E_rescheduleRequired], s0\<lparr>ksConsumed := 0\<rparr>)"
proof -
  have h1: "\<not> (assertions_enabled cfg0
               \<and> thread_state_get_tcbQueued (tcbState (ksTCBs s0 (ksCurThread s0))))"
    by (simp add: s0_def tcb0_def)
  have h2: "ready C0 (ksCurThread s0) s0 = (True, s0)"
    by (simp add: C0_def)
  have h3: "(7::word_t) = tcbSchedContext (ksTCBs s0 (ksCurThread s0))"
    by (simp add: s0_def tcb0_def)
  have h4: "ready (C0\<lparr>ready := (\<lambda>t s. (False, s))\<rparr>) (ksCurThread s0) s0 = (False, s0)"
    by simp
  have c1: "handleYield cfg0 C0 ([], s0)
       = Ret () ([E_ready 1, E_recharge 7, E_tcbSchedAppend 1, E_rescheduleRequired],
                 s0\<lparr>ksConsumed := 0\<rparr>)"
    using handleYield_when_assertion_passes [OF h1 h2 h3 refl, of "[]"]
    by (simp add: C0_def s0_def)
  have c2: "handleYield cfg0 (C0\<lparr>ready := (\<lambda>t s. (False, s))\<rparr>) ([], s0)
       = Ret () ([E_ready 1, E_postpone 7, E_rescheduleRequired], s0\<lparr>ksConsumed := 0\<rparr>)"
    using handleYield_when_assertion_passes [OF h1 h4 h3 refl, of "[]"]
    by (simp add: C0_def s0_def)
  show ?thesis by (intro conjI h1 h2 h3 h4 c1 c2)
qed

subsection \<open>handleInvocation once both lookups have succeeded\<close>

text \<open>
  The calls made up to and including the decoder, and what follows each of its three
  kinds of result.
\<close>

lemma handleInvocation_decoded:
  assumes "thread = ksCurThread s"
      and "cptr = getRegister s thread capRegister"
      and "info = messageInfoFromWord C (getRegister s thread msgInfoRegister)"
      and "lookupCapAndSlot C thread cptr s = (lu_ret, s1)"
      and "lcs_status lu_ret = EXCEPTION_NONE"
      and "lookupIPCBuffer C False thread (debugState cfg (entry_Invocation (lcs_cap lu_ret) info) s1)
             = (buffer, s2)"
      and "lookupExtraCaps C thread buffer info s2 = (EXCEPTION_NONE, s3)"
      and "len = (if message_info_get_msgLength info > n_msgRegisters cfg \<and> buffer = 0
                  then n_msgRegisters cfg else message_info_get_msgLength info)"
      and "decodeInvocation C (message_info_get_msgLabel info) len cptr (lcs_slot lu_ret)
             (lcs_cap lu_ret) (current_extra_caps s3) isBlocking isCall buffer s3 = (status, s4)"
      and "tr4 = tr @ [E_lookupCapAndSlot thread cptr, E_lookupIPCBuffer False thread,
                       E_lookupExtraCaps thread buffer info,
                       E_decodeInvocation (message_info_get_msgLabel info) len cptr (lcs_slot lu_ret)
                         (lcs_cap lu_ret) (current_extra_caps s3) isBlocking isCall buffer]"
  shows "handleInvocation cfg C isCall isBlocking (tr, s)
           = (if status = EXCEPTION_PREEMPTED then Ret EXCEPTION_PREEMPTED (tr4, s4)
              else if status = EXCEPTION_SYSCALL_ERROR then
                (if isCall
                 then Ret EXCEPTION_NONE (tr4 @ [E_replyFromKernel_error thread],
                                          replyFromKernel_error C thread s4)
                 else Ret EXCEPTION_NONE (tr4, s4))
              else if thread_state_get_tsType (tcbState (ksTCBs s4 thread)) = ThreadState_Restart then
                (if isCall
                 then Ret EXCEPTION_NONE
                        (tr4 @ [E_replyFromKernel_success_empty thread,
                                E_setThreadState thread ThreadState_Running],
                         setThreadState C thread ThreadState_Running
                           (replyFromKernel_success_empty C thread s4))
                 else Ret EXCEPTION_NONE
                        (tr4 @ [E_setThreadState thread ThreadState_Running],
                         setThreadState C thread ThreadState_Running s4))
              else Ret EXCEPTION_NONE (tr4, s4))"
  using assms(4,5,6,7,9) unfolding assms(10) assms(8) assms(3) assms(2) assms(1)
  by (simp add: handleInvocation_def kernel_defs Let_def)

subsection \<open>C9: handleInvocation when the decoder succeeds\<close>

text \<open>
  C9: when the decoder returns neither \<^verbatim>\<open>EXCEPTION_PREEMPTED\<close> nor
  \<^verbatim>\<open>EXCEPTION_SYSCALL_ERROR\<close>: if the state of the thread is then
  \<^verbatim>\<open>ThreadState_Restart\<close>, \<^verbatim>\<open>replyFromKernel_success_empty(thread)\<close> is called when
  \<^verbatim>\<open>isCall\<close> holds (and not otherwise), and then
  \<^verbatim>\<open>setThreadState(thread, ThreadState_Running)\<close>; if the state is not
  \<^verbatim>\<open>ThreadState_Restart\<close>, nothing is called after the decoder and the kernel state is
  the one the decoder left. The function returns \<^verbatim>\<open>EXCEPTION_NONE\<close>.
\<close>

theorem handleInvocation_success:
  assumes "thread = ksCurThread s"
      and "cptr = getRegister s thread capRegister"
      and "info = messageInfoFromWord C (getRegister s thread msgInfoRegister)"
      and "lookupCapAndSlot C thread cptr s = (lu_ret, s1)"
      and "lcs_status lu_ret = EXCEPTION_NONE"
      and "lookupIPCBuffer C False thread (debugState cfg (entry_Invocation (lcs_cap lu_ret) info) s1)
             = (buffer, s2)"
      and "lookupExtraCaps C thread buffer info s2 = (EXCEPTION_NONE, s3)"
      and "len = (if message_info_get_msgLength info > n_msgRegisters cfg \<and> buffer = 0
                  then n_msgRegisters cfg else message_info_get_msgLength info)"
      and "decodeInvocation C (message_info_get_msgLabel info) len cptr (lcs_slot lu_ret)
             (lcs_cap lu_ret) (current_extra_caps s3) isBlocking isCall buffer s3 = (status, s4)"
      and "status \<noteq> EXCEPTION_PREEMPTED"
      and "status \<noteq> EXCEPTION_SYSCALL_ERROR"
      and "tr4 = tr @ [E_lookupCapAndSlot thread cptr, E_lookupIPCBuffer False thread,
                       E_lookupExtraCaps thread buffer info,
                       E_decodeInvocation (message_info_get_msgLabel info) len cptr (lcs_slot lu_ret)
                         (lcs_cap lu_ret) (current_extra_caps s3) isBlocking isCall buffer]"
  shows "handleInvocation cfg C isCall isBlocking (tr, s)
           = (if thread_state_get_tsType (tcbState (ksTCBs s4 thread)) = ThreadState_Restart then
                (if isCall
                 then Ret EXCEPTION_NONE
                        (tr4 @ [E_replyFromKernel_success_empty thread,
                                E_setThreadState thread ThreadState_Running],
                         setThreadState C thread ThreadState_Running
                           (replyFromKernel_success_empty C thread s4))
                 else Ret EXCEPTION_NONE
                        (tr4 @ [E_setThreadState thread ThreadState_Running],
                         setThreadState C thread ThreadState_Running s4))
              else Ret EXCEPTION_NONE (tr4, s4))"
  using handleInvocation_decoded [OF assms(1-9) assms(12)] assms(10,11)
  by simp

theorem handleInvocation_success_witness:
  "(1::word_t) = ksCurThread s0
   \<and> (5::word_t) = getRegister s0 1 capRegister
   \<and> lookupCapAndSlot C_restart 1 5 s0
       = (\<lparr>lcs_status = EXCEPTION_NONE, lcs_cap = EndpointCap 64 0 True True, lcs_slot = CTE_PTR 128\<rparr>, s0)
   \<and> lookupIPCBuffer C_restart False 1 s0 = (0, s0)
   \<and> lookupExtraCaps C_restart 1 0 (messageInfoFromWord C_restart 0) s0 = (EXCEPTION_NONE, s0)
   \<and> decodeInvocation C_restart 0 0 5 (CTE_PTR 128) (EndpointCap 64 0 True True) [] True True 0 s0
       = (EXCEPTION_NONE, setThreadState0 1 ThreadState_Restart s0)
   \<and> EXCEPTION_NONE \<noteq> EXCEPTION_PREEMPTED \<and> EXCEPTION_NONE \<noteq> EXCEPTION_SYSCALL_ERROR
   \<and> handleInvocation cfg0 C_restart True True ([], s0)
       = Ret EXCEPTION_NONE
           ([E_lookupCapAndSlot 1 5, E_lookupIPCBuffer False 1,
             E_lookupExtraCaps 1 0 (messageInfoFromWord C_restart 0),
             E_decodeInvocation 0 0 5 (CTE_PTR 128) (EndpointCap 64 0 True True) [] True True 0,
             E_replyFromKernel_success_empty 1, E_setThreadState 1 ThreadState_Running],
            setThreadState0 1 ThreadState_Running (setThreadState0 1 ThreadState_Restart s0))"
proof -
  have info: "messageInfoFromWord C_restart 0
                = messageInfoFromWord C_restart (getRegister s0 1 msgInfoRegister)"
    by (simp add: getRegister_def s0_def tcb0_def)
  have lbl: "message_info_get_msgLabel (messageInfoFromWord C_restart 0) = 0"
    and ln: "message_info_get_msgLength (messageInfoFromWord C_restart 0) = 0"
    by (simp_all add: C_restart_def C0_def)
  have h1: "(1::word_t) = ksCurThread s0" by (simp add: s0_def)
  have h2: "(5::word_t) = getRegister s0 1 capRegister"
    by (simp add: getRegister_def s0_def tcb0_def)
  have h4: "lookupCapAndSlot C_restart 1 5 s0
       = (\<lparr>lcs_status = EXCEPTION_NONE, lcs_cap = EndpointCap 64 0 True True, lcs_slot = CTE_PTR 128\<rparr>, s0)"
    by (simp add: C_restart_def C0_def)
  have h5: "lcs_status \<lparr>lcs_status = EXCEPTION_NONE, lcs_cap = EndpointCap 64 0 True True,
                        lcs_slot = CTE_PTR 128\<rparr> = EXCEPTION_NONE"
    by simp
  have b: "lookupIPCBuffer C_restart False 1 s0 = (0, s0)"
    by (simp add: C_restart_def C0_def)
  have h6: "lookupIPCBuffer C_restart False 1
              (debugState cfg0 (entry_Invocation
                 (lcs_cap \<lparr>lcs_status = EXCEPTION_NONE, lcs_cap = EndpointCap 64 0 True True,
                           lcs_slot = CTE_PTR 128\<rparr>) (messageInfoFromWord C_restart 0)) s0) = (0, s0)"
    by (simp add: C_restart_def C0_def debugState_def cfg0_def)
  have h7: "lookupExtraCaps C_restart 1 0 (messageInfoFromWord C_restart 0) s0 = (EXCEPTION_NONE, s0)"
    by (simp add: C_restart_def C0_def)
  have h8: "(0::word_t) = (if message_info_get_msgLength (messageInfoFromWord C_restart 0) > n_msgRegisters cfg0
                              \<and> (0::word_t) = 0
                           then n_msgRegisters cfg0
                           else message_info_get_msgLength (messageInfoFromWord C_restart 0))"
    by (simp add: ln cfg0_def)
  have d: "decodeInvocation C_restart 0 0 5 (CTE_PTR 128) (EndpointCap 64 0 True True) [] True True 0 s0
       = (EXCEPTION_NONE, setThreadState0 1 ThreadState_Restart s0)"
    by (simp add: C_restart_def C0_def s0_def)
  have h9: "decodeInvocation C_restart (message_info_get_msgLabel (messageInfoFromWord C_restart 0)) 0 5
              (lcs_slot \<lparr>lcs_status = EXCEPTION_NONE, lcs_cap = EndpointCap 64 0 True True,
                         lcs_slot = CTE_PTR 128\<rparr>)
              (lcs_cap \<lparr>lcs_status = EXCEPTION_NONE, lcs_cap = EndpointCap 64 0 True True,
                        lcs_slot = CTE_PTR 128\<rparr>)
              (current_extra_caps s0) True True 0 s0
       = (EXCEPTION_NONE, setThreadState0 1 ThreadState_Restart s0)"
    using d by (simp add: lbl s0_def)
  have n1: "EXCEPTION_NONE \<noteq> EXCEPTION_PREEMPTED" and n2: "EXCEPTION_NONE \<noteq> EXCEPTION_SYSCALL_ERROR"
    by simp_all
  have c: "handleInvocation cfg0 C_restart True True ([], s0)
       = Ret EXCEPTION_NONE
           ([E_lookupCapAndSlot 1 5, E_lookupIPCBuffer False 1,
             E_lookupExtraCaps 1 0 (messageInfoFromWord C_restart 0),
             E_decodeInvocation 0 0 5 (CTE_PTR 128) (EndpointCap 64 0 True True) [] True True 0,
             E_replyFromKernel_success_empty 1, E_setThreadState 1 ThreadState_Running],
            setThreadState0 1 ThreadState_Running (setThreadState0 1 ThreadState_Restart s0))"
    using handleInvocation_success [OF h1 h2 info h4 h5 h6 h7 h8 h9 n1 n2 refl]
    by (simp add: lbl C_restart_def C0_def setThreadState0_def s0_def)
  show ?thesis by (intro conjI h1 h2 h4 b h7 d n1 n2 c)
qed

subsection \<open>C8: a preempted invocation\<close>

lemma handleSyscall_invocation_preempted:
  assumes "checkBudget C (updateTimestamp C (debugState cfg (entry_Syscall syscall) s)) = (True, sb)"
      and "syscall = SysSend \<and> \<not> isCall \<and> isBlocking
           \<or> syscall = SysNBSend \<and> \<not> isCall \<and> \<not> isBlocking
           \<or> syscall = SysCall \<and> isCall \<and> isBlocking"
      and "handleInvocation cfg C isCall isBlocking (tr @ [E_updateTimestamp, E_checkBudget], sb)
             = Ret EXCEPTION_PREEMPTED (tr', s')"
      and "getActiveIRQ C s' = (irq, s'')"
  shows "handleSyscall cfg C syscall (tr, s)
           = Ret EXCEPTION_NONE
               (tr' @ E_getActiveIRQ # (if irq \<noteq> irqInvalid cfg then [E_handleInterrupt irq] else [])
                    @ [E_schedule, E_activateThread],
                activateThread C (schedule C
                  (if irq \<noteq> irqInvalid cfg then handleInterrupt C irq s'' else s'')))"
  using assms
  by (elim disjE conjE; simp add: handleSyscall_def syscallSwitch_def kernel_defs)

lemma handleInvocation_preempted:
  assumes "thread = ksCurThread s"
      and "cptr = getRegister s thread capRegister"
      and "info = messageInfoFromWord C (getRegister s thread msgInfoRegister)"
      and "lookupCapAndSlot C thread cptr s = (lu_ret, s1)"
      and "lcs_status lu_ret = EXCEPTION_NONE"
      and "lookupIPCBuffer C False thread (debugState cfg (entry_Invocation (lcs_cap lu_ret) info) s1)
             = (buffer, s2)"
      and "lookupExtraCaps C thread buffer info s2 = (EXCEPTION_NONE, s3)"
      and "len = (if message_info_get_msgLength info > n_msgRegisters cfg \<and> buffer = 0
                  then n_msgRegisters cfg else message_info_get_msgLength info)"
      and "decodeInvocation C (message_info_get_msgLabel info) len cptr (lcs_slot lu_ret)
             (lcs_cap lu_ret) (current_extra_caps s3) isBlocking isCall buffer s3
             = (EXCEPTION_PREEMPTED, s4)"
  shows "handleInvocation cfg C isCall isBlocking (tr, s)
           = Ret EXCEPTION_PREEMPTED
               (tr @ [E_lookupCapAndSlot thread cptr, E_lookupIPCBuffer False thread,
                      E_lookupExtraCaps thread buffer info,
                      E_decodeInvocation (message_info_get_msgLabel info) len cptr (lcs_slot lu_ret)
                        (lcs_cap lu_ret) (current_extra_caps s3) isBlocking isCall buffer],
                s4)"
  using handleInvocation_decoded [OF assms refl] by simp

text \<open>
  C8: when the invocation path of \<^verbatim>\<open>handleSyscall\<close> (\<^verbatim>\<open>SysSend\<close>, \<^verbatim>\<open>SysNBSend\<close> or
  \<^verbatim>\<open>SysCall\<close>) returns \<^verbatim>\<open>EXCEPTION_PREEMPTED\<close>, \<^verbatim>\<open>handleSyscall\<close> calls
  \<^verbatim>\<open>getActiveIRQ\<close> once, calls \<^verbatim>\<open>handleInterrupt\<close> on the result only if it is not
  \<^verbatim>\<open>irqInvalid\<close>, and then calls \<^verbatim>\<open>schedule\<close> and \<^verbatim>\<open>activateThread\<close>. And
  \<^verbatim>\<open>handleInvocation\<close>, when the decoder returns \<^verbatim>\<open>EXCEPTION_PREEMPTED\<close>, returns
  that status at once: the decoder is its last call, so no reply is sent.
\<close>

theorem handleSyscall_preempted_drains_one_interrupt:
  "(checkBudget C (updateTimestamp C (debugState cfg (entry_Syscall syscall) s)) = (True, sb)
    \<and> (syscall = SysSend \<and> \<not> isCall \<and> isBlocking
        \<or> syscall = SysNBSend \<and> \<not> isCall \<and> \<not> isBlocking
        \<or> syscall = SysCall \<and> isCall \<and> isBlocking)
    \<and> handleInvocation cfg C isCall isBlocking (tr @ [E_updateTimestamp, E_checkBudget], sb)
          = Ret EXCEPTION_PREEMPTED (tr', s')
    \<and> getActiveIRQ C s' = (irq, s'')
    \<longrightarrow> handleSyscall cfg C syscall (tr, s)
          = Ret EXCEPTION_NONE
              (tr' @ E_getActiveIRQ # (if irq \<noteq> irqInvalid cfg then [E_handleInterrupt irq] else [])
                   @ [E_schedule, E_activateThread],
               activateThread C (schedule C
                 (if irq \<noteq> irqInvalid cfg then handleInterrupt C irq s'' else s''))))
   \<and> (thread = ksCurThread s
       \<and> cptr = getRegister s thread capRegister
       \<and> info = messageInfoFromWord C (getRegister s thread msgInfoRegister)
       \<and> lookupCapAndSlot C thread cptr s = (lu_ret, s1)
       \<and> lcs_status lu_ret = EXCEPTION_NONE
       \<and> lookupIPCBuffer C False thread (debugState cfg (entry_Invocation (lcs_cap lu_ret) info) s1)
            = (buffer, s2)
       \<and> lookupExtraCaps C thread buffer info s2 = (EXCEPTION_NONE, s3)
       \<and> len = (if message_info_get_msgLength info > n_msgRegisters cfg \<and> buffer = 0
                 then n_msgRegisters cfg else message_info_get_msgLength info)
       \<and> decodeInvocation C (message_info_get_msgLabel info) len cptr (lcs_slot lu_ret)
            (lcs_cap lu_ret) (current_extra_caps s3) isBlocking isCall buffer s3
            = (EXCEPTION_PREEMPTED, s4)
       \<longrightarrow> handleInvocation cfg C isCall isBlocking (tr, s)
             = Ret EXCEPTION_PREEMPTED
                 (tr @ [E_lookupCapAndSlot thread cptr, E_lookupIPCBuffer False thread,
                        E_lookupExtraCaps thread buffer info,
                        E_decodeInvocation (message_info_get_msgLabel info) len cptr (lcs_slot lu_ret)
                          (lcs_cap lu_ret) (current_extra_caps s3) isBlocking isCall buffer],
                  s4))"
  by (intro conjI impI; elim conjE)
     ((rule handleSyscall_invocation_preempted; assumption),
      (rule handleInvocation_preempted; assumption))

theorem handleSyscall_preempted_drains_one_interrupt_witness:
  "(checkBudget C_preempted (updateTimestamp C_preempted (debugState cfg0 (entry_Syscall SysCall) s0))
      = (True, s0)
    \<and> handleInvocation cfg0 C_preempted True True ([] @ [E_updateTimestamp, E_checkBudget], s0)
        = Ret EXCEPTION_PREEMPTED
            ([E_updateTimestamp, E_checkBudget, E_lookupCapAndSlot 1 5, E_lookupIPCBuffer False 1,
              E_lookupExtraCaps 1 0 (messageInfoFromWord C_preempted 0),
              E_decodeInvocation 0 0 5 (CTE_PTR 128) (EndpointCap 64 0 True True) [] True True 0], s0)
    \<and> getActiveIRQ C_preempted s0 = (3, s0)
    \<and> handleSyscall cfg0 C_preempted SysCall ([], s0)
        = Ret EXCEPTION_NONE
            ([E_updateTimestamp, E_checkBudget, E_lookupCapAndSlot 1 5, E_lookupIPCBuffer False 1,
              E_lookupExtraCaps 1 0 (messageInfoFromWord C_preempted 0),
              E_decodeInvocation 0 0 5 (CTE_PTR 128) (EndpointCap 64 0 True True) [] True True 0,
              E_getActiveIRQ, E_handleInterrupt 3, E_schedule, E_activateThread], s0))
   \<and> (lookupCapAndSlot C_preempted 1 5 s0
        = (\<lparr>lcs_status = EXCEPTION_NONE, lcs_cap = EndpointCap 64 0 True True, lcs_slot = CTE_PTR 128\<rparr>, s0)
       \<and> lookupIPCBuffer C_preempted False 1 s0 = (0, s0)
       \<and> lookupExtraCaps C_preempted 1 0 (messageInfoFromWord C_preempted 0) s0 = (EXCEPTION_NONE, s0)
       \<and> decodeInvocation C_preempted 0 0 5 (CTE_PTR 128) (EndpointCap 64 0 True True) [] True True 0 s0
           = (EXCEPTION_PREEMPTED, s0)
       \<and> handleInvocation cfg0 C_preempted True True ([], s0)
           = Ret EXCEPTION_PREEMPTED
               ([E_lookupCapAndSlot 1 5, E_lookupIPCBuffer False 1,
                 E_lookupExtraCaps 1 0 (messageInfoFromWord C_preempted 0),
                 E_decodeInvocation 0 0 5 (CTE_PTR 128) (EndpointCap 64 0 True True) [] True True 0], s0))"
proof -
  let ?lu = "\<lparr>lcs_status = EXCEPTION_NONE, lcs_cap = EndpointCap 64 0 True True, lcs_slot = CTE_PTR 128\<rparr>"
  let ?info = "messageInfoFromWord C_preempted 0"
  let ?path = "[E_lookupCapAndSlot 1 5, E_lookupIPCBuffer False 1, E_lookupExtraCaps 1 0 ?info,
                E_decodeInvocation 0 0 5 (CTE_PTR 128) (EndpointCap 64 0 True True) [] True True 0]"
  note T = handleSyscall_preempted_drains_one_interrupt
  have lbl: "message_info_get_msgLabel ?info = 0"
    by (simp add: C_preempted_def C0_def)
  have ex: "current_extra_caps s0 = []"
    by (simp add: s0_def)
  have h4: "lookupCapAndSlot C_preempted 1 5 s0 = (?lu, s0)"
    by (simp add: C_preempted_def C0_def)
  have b: "lookupIPCBuffer C_preempted False 1 s0 = (0, s0)"
    by (simp add: C_preempted_def C0_def)
  have h7: "lookupExtraCaps C_preempted 1 0 ?info s0 = (EXCEPTION_NONE, s0)"
    by (simp add: C_preempted_def C0_def)
  have d: "decodeInvocation C_preempted 0 0 5 (CTE_PTR 128) (EndpointCap 64 0 True True) [] True True 0 s0
             = (EXCEPTION_PREEMPTED, s0)"
    by (simp add: C_preempted_def C0_def)
  have g: "checkBudget C_preempted (updateTimestamp C_preempted (debugState cfg0 (entry_Syscall SysCall) s0))
             = (True, s0)"
    by (simp add: C_preempted_def C0_def debugState_def cfg0_def)
  have q: "getActiveIRQ C_preempted s0 = (3, s0)"
    by (simp add: C_preempted_def C0_def)
  have p2: "(1::word_t) = ksCurThread s0
       \<and> (5::word_t) = getRegister s0 1 capRegister
       \<and> ?info = messageInfoFromWord C_preempted (getRegister s0 1 msgInfoRegister)
       \<and> lookupCapAndSlot C_preempted 1 5 s0 = (?lu, s0)
       \<and> lcs_status ?lu = EXCEPTION_NONE
       \<and> lookupIPCBuffer C_preempted False 1 (debugState cfg0 (entry_Invocation (lcs_cap ?lu) ?info) s0)
            = (0, s0)
       \<and> lookupExtraCaps C_preempted 1 0 ?info s0 = (EXCEPTION_NONE, s0)
       \<and> (0::word_t) = (if message_info_get_msgLength ?info > n_msgRegisters cfg0 \<and> (0::word_t) = 0
                 then n_msgRegisters cfg0 else message_info_get_msgLength ?info)
       \<and> decodeInvocation C_preempted (message_info_get_msgLabel ?info) 0 5 (lcs_slot ?lu)
            (lcs_cap ?lu) (current_extra_caps s0) True True 0 s0
            = (EXCEPTION_PREEMPTED, s0)"
    by (simp add: C_preempted_def C0_def s0_def tcb0_def getRegister_def debugState_def cfg0_def)
  have i0: "handleInvocation cfg0 C_preempted True True ([], s0) = Ret EXCEPTION_PREEMPTED (?path, s0)"
    using T [where thread = 1 and s = s0 and cptr = 5 and info = ?info and C = C_preempted
               and lu_ret = ?lu and ?s1.0 = s0 and cfg = cfg0 and buffer = 0 and ?s2.0 = s0
               and ?s3.0 = s0 and len = 0 and isBlocking = True and isCall = True and ?s4.0 = s0
               and tr = "[]", THEN conjunct2, rule_format, OF p2]
    by (simp add: lbl ex)
  have i1: "handleInvocation cfg0 C_preempted True True ([] @ [E_updateTimestamp, E_checkBudget], s0)
              = Ret EXCEPTION_PREEMPTED ([E_updateTimestamp, E_checkBudget] @ ?path, s0)"
    using T [where thread = 1 and s = s0 and cptr = 5 and info = ?info and C = C_preempted
               and lu_ret = ?lu and ?s1.0 = s0 and cfg = cfg0 and buffer = 0 and ?s2.0 = s0
               and ?s3.0 = s0 and len = 0 and isBlocking = True and isCall = True and ?s4.0 = s0
               and tr = "[E_updateTimestamp, E_checkBudget]", THEN conjunct2, rule_format, OF p2]
    by (simp add: lbl ex)
  have p1: "checkBudget C_preempted (updateTimestamp C_preempted (debugState cfg0 (entry_Syscall SysCall) s0))
              = (True, s0)
    \<and> (SysCall = SysSend \<and> \<not> True \<and> True
        \<or> SysCall = SysNBSend \<and> \<not> True \<and> \<not> True
        \<or> SysCall = SysCall \<and> True \<and> True)
    \<and> handleInvocation cfg0 C_preempted True True ([] @ [E_updateTimestamp, E_checkBudget], s0)
          = Ret EXCEPTION_PREEMPTED ([E_updateTimestamp, E_checkBudget] @ ?path, s0)
    \<and> getActiveIRQ C_preempted s0 = (3, s0)"
    using g i1 q by simp
  have c: "handleSyscall cfg0 C_preempted SysCall ([], s0)
        = Ret EXCEPTION_NONE
            ([E_updateTimestamp, E_checkBudget] @ ?path
               @ [E_getActiveIRQ, E_handleInterrupt 3, E_schedule, E_activateThread], s0)"
    using T [where C = C_preempted and cfg = cfg0 and syscall = SysCall and s = s0 and sb = s0
               and isCall = True and isBlocking = True and tr = "[]"
               and tr' = "[E_updateTimestamp, E_checkBudget] @ ?path" and s' = s0 and irq = 3
               and s'' = s0, THEN conjunct1, rule_format, OF p1]
    by (simp add: C_preempted_def C0_def cfg0_def)
  show ?thesis using g i1 q c h4 b h7 d i0 by simp
qed

subsection \<open>C6: the caller capability is deleted before receiveIPC\<close>

lemma handleRecv_endpoint:
  assumes "epCPtr = getRegister s (ksCurThread s) capRegister"
      and "lookupCap C (ksCurThread s) epCPtr s = (lu_ret, s1)"
      and "lc_status lu_ret = EXCEPTION_NONE"
      and "cap_get_capType (lc_cap lu_ret) = cap_endpoint_cap"
      and "cap_endpoint_cap_get_capCanReceive (lc_cap lu_ret)"
      and "s2 = deleteCallerCap C (ksCurThread s1) s1"
  shows "handleRecv C isBlocking (tr, s)
           = Ret ()
               (tr @ [E_lookupCap (ksCurThread s) epCPtr,
                      E_deleteCallerCap (ksCurThread s1),
                      E_receiveIPC (ksCurThread s2) (lc_cap lu_ret) isBlocking],
                receiveIPC C (ksCurThread s2) (lc_cap lu_ret) isBlocking s2)"
  using assms(2-5) unfolding assms(6) assms(1)
  by (simp add: handleRecv_def kernel_defs)

lemma handleReply_returns:
  assumes "handleReply cfg C (tr, s) = Ret () (tr', s')"
      and "callerSlot = TCB_PTR_CTE_PTR (ksCurThread s) tcbCaller"
      and "callerCap = ksCTEs s callerSlot"
  shows "(cap_get_capType callerCap = cap_null_cap \<and> tr' = tr \<and> s' = s)
         \<or> (cap_get_capType callerCap = cap_reply_cap
             \<and> tr' = tr @ [E_doReplyTransfer (ksCurThread s) (cap_reply_cap_get_capTCBPtr callerCap) callerSlot]
             \<and> s' = doReplyTransfer C (ksCurThread s) (cap_reply_cap_get_capTCBPtr callerCap) callerSlot s)"
  using assms(1) unfolding assms(3) assms(2)
  by (cases "ksCTEs s (TCB_PTR_CTE_PTR (ksCurThread s) tcbCaller)")
     (auto simp add: handleReply_def kernel_defs split: if_splits)

lemma handleSyscall_ReplyRecv:
  assumes "checkBudget C (updateTimestamp C (debugState cfg (entry_Syscall SysReplyRecv) s)) = (True, sb)"
      and "handleReply cfg C (tr @ [E_updateTimestamp, E_checkBudget], sb) = Ret () (tr', sr)"
      and "handleRecv C True (tr', sr) = Ret () (tr'', sv)"
  shows "handleSyscall cfg C SysReplyRecv (tr, s)
           = Ret EXCEPTION_NONE (tr'' @ [E_schedule, E_activateThread], activateThread C (schedule C sv))"
  using assms by (simp add: handleSyscall_def syscallSwitch_def kernel_defs)

text \<open>
  C6: when the capability that \<^verbatim>\<open>lookupCap\<close> finds in \<^verbatim>\<open>handleRecv\<close> is an endpoint
  capability with the receive right, \<^verbatim>\<open>deleteCallerCap(ksCurThread)\<close> is called and
  only then \<^verbatim>\<open>receiveIPC\<close>. In the \<^verbatim>\<open>SysReplyRecv\<close> path of \<^verbatim>\<open>handleSyscall\<close>, where
  \<open>(tr, s)\<close> is the trace and state that \<^verbatim>\<open>handleReply\<close> returns, the calls of the
  reply step (none, or one \<^verbatim>\<open>doReplyTransfer\<close>) come first, then the lookup, then
  \<^verbatim>\<open>deleteCallerCap\<close>, then \<^verbatim>\<open>receiveIPC\<close> (blocking), then \<^verbatim>\<open>schedule\<close> and
  \<^verbatim>\<open>activateThread\<close>.
\<close>

theorem handleRecv_deletes_caller_cap_before_receiveIPC:
  assumes "epCPtr = getRegister s (ksCurThread s) capRegister"
      and "lookupCap C (ksCurThread s) epCPtr s = (lu_ret, s1)"
      and "lc_status lu_ret = EXCEPTION_NONE"
      and "cap_get_capType (lc_cap lu_ret) = cap_endpoint_cap"
      and "cap_endpoint_cap_get_capCanReceive (lc_cap lu_ret)"
      and "s2 = deleteCallerCap C (ksCurThread s1) s1"
  shows "handleRecv C isBlocking (tr, s)
           = Ret ()
               (tr @ [E_lookupCap (ksCurThread s) epCPtr,
                      E_deleteCallerCap (ksCurThread s1),
                      E_receiveIPC (ksCurThread s2) (lc_cap lu_ret) isBlocking],
                receiveIPC C (ksCurThread s2) (lc_cap lu_ret) isBlocking s2)
         \<and> (checkBudget C (updateTimestamp C (debugState cfg (entry_Syscall SysReplyRecv) s_in)) = (True, sb)
             \<and> handleReply cfg C (tr_in @ [E_updateTimestamp, E_checkBudget], sb) = Ret () (tr, s)
            \<longrightarrow> handleSyscall cfg C SysReplyRecv (tr_in, s_in)
                  = Ret EXCEPTION_NONE
                      (tr @ [E_lookupCap (ksCurThread s) epCPtr,
                             E_deleteCallerCap (ksCurThread s1),
                             E_receiveIPC (ksCurThread s2) (lc_cap lu_ret) True,
                             E_schedule, E_activateThread],
                       activateThread C (schedule C
                         (receiveIPC C (ksCurThread s2) (lc_cap lu_ret) True s2)))
                \<and> (tr = tr_in @ [E_updateTimestamp, E_checkBudget]
                    \<or> tr = tr_in @ [E_updateTimestamp, E_checkBudget,
                                   E_doReplyTransfer (ksCurThread sb)
                                     (cap_reply_cap_get_capTCBPtr
                                        (ksCTEs sb (TCB_PTR_CTE_PTR (ksCurThread sb) tcbCaller)))
                                     (TCB_PTR_CTE_PTR (ksCurThread sb) tcbCaller)]))"
proof (intro conjI impI)
  show "handleRecv C isBlocking (tr, s)
           = Ret ()
               (tr @ [E_lookupCap (ksCurThread s) epCPtr,
                      E_deleteCallerCap (ksCurThread s1),
                      E_receiveIPC (ksCurThread s2) (lc_cap lu_ret) isBlocking],
                receiveIPC C (ksCurThread s2) (lc_cap lu_ret) isBlocking s2)"
    by (rule handleRecv_endpoint [OF assms])
next
  assume a: "checkBudget C (updateTimestamp C (debugState cfg (entry_Syscall SysReplyRecv) s_in)) = (True, sb)
             \<and> handleReply cfg C (tr_in @ [E_updateTimestamp, E_checkBudget], sb) = Ret () (tr, s)"
  show "handleSyscall cfg C SysReplyRecv (tr_in, s_in)
                  = Ret EXCEPTION_NONE
                      (tr @ [E_lookupCap (ksCurThread s) epCPtr,
                             E_deleteCallerCap (ksCurThread s1),
                             E_receiveIPC (ksCurThread s2) (lc_cap lu_ret) True,
                             E_schedule, E_activateThread],
                       activateThread C (schedule C
                         (receiveIPC C (ksCurThread s2) (lc_cap lu_ret) True s2)))"
    using handleSyscall_ReplyRecv [OF conjunct1 [OF a] conjunct2 [OF a]
            handleRecv_endpoint [OF assms, of True tr]]
    by simp
next
  assume a: "checkBudget C (updateTimestamp C (debugState cfg (entry_Syscall SysReplyRecv) s_in)) = (True, sb)
             \<and> handleReply cfg C (tr_in @ [E_updateTimestamp, E_checkBudget], sb) = Ret () (tr, s)"
  show "tr = tr_in @ [E_updateTimestamp, E_checkBudget]
        \<or> tr = tr_in @ [E_updateTimestamp, E_checkBudget,
                       E_doReplyTransfer (ksCurThread sb)
                         (cap_reply_cap_get_capTCBPtr
                            (ksCTEs sb (TCB_PTR_CTE_PTR (ksCurThread sb) tcbCaller)))
                         (TCB_PTR_CTE_PTR (ksCurThread sb) tcbCaller)]"
    using handleReply_returns [OF conjunct2 [OF a] refl refl]
    by auto
qed

theorem handleRecv_deletes_caller_cap_before_receiveIPC_witness:
  "(5::word_t) = getRegister s_reply (ksCurThread s_reply) capRegister
   \<and> lookupCap C0 (ksCurThread s_reply) 5 s_reply
       = (\<lparr>lc_status = EXCEPTION_NONE, lc_cap = EndpointCap 64 0 True True\<rparr>, s_reply)
   \<and> cap_get_capType (EndpointCap 64 0 True True) = cap_endpoint_cap
   \<and> cap_endpoint_cap_get_capCanReceive (EndpointCap 64 0 True True)
   \<and> s_reply = deleteCallerCap C0 (ksCurThread s_reply) s_reply
   \<and> handleRecv C0 False ([], s_reply)
       = Ret () ([E_lookupCap 1 5, E_deleteCallerCap 1,
                  E_receiveIPC 1 (EndpointCap 64 0 True True) False], s_reply)
   \<and> checkBudget C0 (updateTimestamp C0 (debugState cfg0 (entry_Syscall SysReplyRecv) s_reply))
       = (True, s_reply)
   \<and> handleReply cfg0 C0 ([E_updateTimestamp, E_checkBudget], s_reply)
       = Ret () ([E_updateTimestamp, E_checkBudget,
                  E_doReplyTransfer 1 2 (TCB_PTR_CTE_PTR 1 tcbCaller)], s_reply)
   \<and> handleSyscall cfg0 C0 SysReplyRecv ([], s_reply)
       = Ret EXCEPTION_NONE
           ([E_updateTimestamp, E_checkBudget,
             E_doReplyTransfer 1 2 (TCB_PTR_CTE_PTR 1 tcbCaller),
             E_lookupCap 1 5, E_deleteCallerCap 1,
             E_receiveIPC 1 (EndpointCap 64 0 True True) True,
             E_schedule, E_activateThread], s_reply)"
proof -
  let ?lu = "\<lparr>lc_status = EXCEPTION_NONE, lc_cap = EndpointCap 64 0 True True\<rparr>"
  let ?tr = "[E_updateTimestamp, E_checkBudget, E_doReplyTransfer 1 2 (TCB_PTR_CTE_PTR 1 tcbCaller)]"
  note T = handleRecv_deletes_caller_cap_before_receiveIPC
  have cur: "ksCurThread s_reply = 1" by (simp add: s_reply_def s0_def)
  have h1: "(5::word_t) = getRegister s_reply (ksCurThread s_reply) capRegister"
    by (simp add: s_reply_def s0_def tcb0_def getRegister_def)
  have h2: "lookupCap C0 (ksCurThread s_reply) 5 s_reply = (?lu, s_reply)"
    by (simp add: C0_def)
  have h3: "lc_status ?lu = EXCEPTION_NONE" by simp
  have h4: "cap_get_capType (lc_cap ?lu) = cap_endpoint_cap" by simp
  have h5: "cap_endpoint_cap_get_capCanReceive (lc_cap ?lu)" by simp
  have h6: "s_reply = deleteCallerCap C0 (ksCurThread s_reply) s_reply"
    by (simp add: C0_def)
  have g: "checkBudget C0 (updateTimestamp C0 (debugState cfg0 (entry_Syscall SysReplyRecv) s_reply))
             = (True, s_reply)"
    by (simp add: C0_def debugState_def cfg0_def)
  have r: "handleReply cfg0 C0 ([E_updateTimestamp, E_checkBudget], s_reply) = Ret () (?tr, s_reply)"
    by (simp add: handleReply_def kernel_defs s_reply_def s0_def C0_def cfg0_def)
  have c1: "handleRecv C0 False ([], s_reply)
       = Ret () ([E_lookupCap 1 5, E_deleteCallerCap 1,
                  E_receiveIPC 1 (EndpointCap 64 0 True True) False], s_reply)"
    using T [OF h1 h2 h3 h4 h5 h6, where isBlocking = False and tr = "[]", THEN conjunct1]
    by (simp add: cur C0_def)
  have p: "checkBudget C0 (updateTimestamp C0 (debugState cfg0 (entry_Syscall SysReplyRecv) s_reply))
             = (True, s_reply)
           \<and> handleReply cfg0 C0 ([] @ [E_updateTimestamp, E_checkBudget], s_reply)
               = Ret () (?tr, s_reply)"
    using g r by simp
  have c2: "handleSyscall cfg0 C0 SysReplyRecv ([], s_reply)
       = Ret EXCEPTION_NONE
           (?tr @ [E_lookupCap 1 5, E_deleteCallerCap 1,
                   E_receiveIPC 1 (EndpointCap 64 0 True True) True,
                   E_schedule, E_activateThread], s_reply)"
    using T [OF h1 h2 h3 h4 h5 h6, where tr = ?tr and cfg = cfg0 and s_in = s_reply
               and sb = s_reply and tr_in = "[]", THEN conjunct2, rule_format, OF p, THEN conjunct1]
    by (simp add: cur C0_def)
  show ?thesis using h1 h2 h6 c1 g r c2 by simp
qed

subsection \<open>Code that returns without calling the scheduler\<close>

lemma rq_return: "returnsQuietly (returnK a)"
  by (simp add: returnsQuietly_def quietAt_def returnK_def)

lemma rq_gets: "returnsQuietly (getsK f)"
  by (simp add: returnsQuietly_def quietAt_def getsK_def)

lemma rq_modify: "returnsQuietly (modifyK f)"
  by (simp add: returnsQuietly_def quietAt_def modifyK_def)

lemma rq_debug: "returnsQuietly (debugK cfg f)"
  by (simp add: debugK_def rq_modify)

lemma rq_callK: "ev \<noteq> E_schedule \<Longrightarrow> ev \<noteq> E_activateThread \<Longrightarrow> returnsQuietly (callK ev f)"
  by (simp add: returnsQuietly_def quietAt_def callK_def)

lemma rq_callV: "ev \<noteq> E_schedule \<Longrightarrow> ev \<noteq> E_activateThread \<Longrightarrow> returnsQuietly (callV ev f)"
  by (simp add: returnsQuietly_def quietAt_def callV_def)

lemma quietAt_bind:
  assumes "quietAt m tr s" and "\<And>a. returnsQuietly (f a)"
  shows "quietAt (bindK m f) tr s"
proof -
  from assms(1) obtain a p1 s1 where
    m: "m (tr, s) = Ret a (tr @ p1, s1)" "E_schedule \<notin> set p1" "E_activateThread \<notin> set p1"
    unfolding quietAt_def by blast
  from assms(2) [of a] obtain b p2 s2 where
    f: "f a (tr @ p1, s1) = Ret b ((tr @ p1) @ p2, s2)" "E_schedule \<notin> set p2"
       "E_activateThread \<notin> set p2"
    unfolding returnsQuietly_def quietAt_def by blast
  have "bindK m f (tr, s) = Ret b (tr @ (p1 @ p2), s2)"
    using m(1) f(1) by (simp add: bindK_def)
  moreover have "E_schedule \<notin> set (p1 @ p2)" "E_activateThread \<notin> set (p1 @ p2)"
    using m f by simp_all
  ultimately show ?thesis
    unfolding quietAt_def by blast
qed

lemma quietAt_then: "quietAt m tr s \<Longrightarrow> returnsQuietly n \<Longrightarrow> quietAt (thenK m n) tr s"
  by (simp add: thenK_def quietAt_bind)

lemma rq_bind: "returnsQuietly m \<Longrightarrow> (\<And>a. returnsQuietly (f a)) \<Longrightarrow> returnsQuietly (bindK m f)"
  by (simp add: returnsQuietly_def quietAt_bind)

lemma rq_then: "returnsQuietly m \<Longrightarrow> returnsQuietly n \<Longrightarrow> returnsQuietly (thenK m n)"
  by (simp add: thenK_def rq_bind)

lemma rq_when: "returnsQuietly m \<Longrightarrow> returnsQuietly (whenK b m)"
  by (simp add: whenK_def rq_return)

lemma rq_if: "returnsQuietly m \<Longrightarrow> returnsQuietly n \<Longrightarrow> returnsQuietly (if b then m else n)"
  by simp

lemma rq_case_cap_tag:
  assumes "returnsQuietly a" "returnsQuietly b" "returnsQuietly c" "returnsQuietly d"
          "returnsQuietly e" "\<And>n. returnsQuietly (f n)"
  shows "returnsQuietly (case t of cap_null_cap \<Rightarrow> a | cap_endpoint_cap \<Rightarrow> b
                          | cap_notification_cap \<Rightarrow> c | cap_reply_cap \<Rightarrow> d
                          | cap_thread_cap \<Rightarrow> e | cap_other_cap n \<Rightarrow> f n)"
  using assms by (cases t) simp_all

lemmas rq_rules =
  rq_bind rq_then rq_if rq_when rq_return rq_gets rq_modify rq_debug rq_callK rq_callV

lemma handleInvocation_quiet: "returnsQuietly (handleInvocation cfg C isCall isBlocking)"
  unfolding handleInvocation_def Let_def
  by (intro rq_rules; simp)

lemma missingCapabilityFault_quiet: "returnsQuietly (missingCapabilityFault C epCPtr)"
  unfolding missingCapabilityFault_def
  by (intro rq_rules; simp)

lemma handleRecv_quiet: "returnsQuietly (handleRecv C isBlocking)"
  unfolding handleRecv_def
  by (intro rq_rules rq_case_cap_tag missingCapabilityFault_quiet; simp)

lemma quietAt_drain:
  assumes "quietAt m tr s"
  shows "quietAt (bindK m (\<lambda>ret.
           whenK (ret = EXCEPTION_PREEMPTED)
             (bindK (callK E_getActiveIRQ (getActiveIRQ C)) (\<lambda>irq.
              whenK (irq \<noteq> irqInvalid cfg) (callV (E_handleInterrupt irq) (handleInterrupt C irq)))))) tr s"
  by (rule quietAt_bind [OF assms]) (intro rq_rules; simp)

lemma returnsQuietlyD: "returnsQuietly m \<Longrightarrow> quietAt m tr s"
  by (simp add: returnsQuietly_def)

subsection \<open>Where handleReply, handleYield and the switch stop or return\<close>

lemma handleReply_fatal:
  assumes "handleReplyFatal cfg s"
  shows "\<exists>e. handleReply cfg C (tr, s) = Fatal e (tr, s)"
  using assms
  by (cases "ksCTEs s (TCB_PTR_CTE_PTR (ksCurThread s) tcbCaller)")
     (auto simp add: handleReplyFatal_def handleReply_def kernel_defs)

lemma handleReply_quiet:
  assumes "\<not> handleReplyFatal cfg s"
  shows "quietAt (handleReply cfg C) tr s"
  using assms
  by (cases "ksCTEs s (TCB_PTR_CTE_PTR (ksCurThread s) tcbCaller)")
     (auto simp add: handleReplyFatal_def handleReply_def kernel_defs quietAt_def)

lemma handleYield_fatal:
  assumes "handleYieldFatal cfg s"
  shows "\<exists>e. handleYield cfg C (tr, s) = Fatal e (tr, s)"
  using assms by (simp add: handleYieldFatal_def handleYield_def kernel_defs)

lemma handleYield_quiet:
  assumes "\<not> handleYieldFatal cfg s"
  shows "quietAt (handleYield cfg C) tr s"
  using assms
  by (cases "fst (ready C (ksCurThread s) s)")
     (auto simp add: handleYieldFatal_def handleYield_def kernel_defs quietAt_def)

lemma syscallSwitch_fatal:
  assumes "syscallSwitchFatal cfg syscall s"
  shows "\<exists>e. syscallSwitch cfg C syscall (tr, s) = Fatal e (tr, s)"
proof (cases syscall)
  case SysReply
  with assms handleReply_fatal [of cfg s C tr] show ?thesis
    by (auto simp add: syscallSwitchFatal_def syscallSwitch_def bindK_def thenK_def)
next
  case SysReplyRecv
  with assms handleReply_fatal [of cfg s C tr] show ?thesis
    by (auto simp add: syscallSwitchFatal_def syscallSwitch_def bindK_def thenK_def)
next
  case SysYield
  with assms handleYield_fatal [of cfg s C tr] show ?thesis
    by (auto simp add: syscallSwitchFatal_def syscallSwitch_def bindK_def thenK_def)
next
  case (SysUndefined n)
  then show ?thesis
    by (simp add: syscallSwitch_def bindK_def failK_def)
qed (use assms in \<open>simp_all add: syscallSwitchFatal_def\<close>)

lemma syscallSwitch_quiet:
  assumes "\<not> syscallSwitchFatal cfg syscall s"
  shows "quietAt (syscallSwitch cfg C syscall) tr s"
proof (cases syscall)
  case SysSend
  show ?thesis
    unfolding syscallSwitch_def SysSend syscall_t.case
    by (rule quietAt_drain [OF returnsQuietlyD [OF handleInvocation_quiet]])
next
  case SysNBSend
  show ?thesis
    unfolding syscallSwitch_def SysNBSend syscall_t.case
    by (rule quietAt_drain [OF returnsQuietlyD [OF handleInvocation_quiet]])
next
  case SysCall
  show ?thesis
    unfolding syscallSwitch_def SysCall syscall_t.case
    by (rule quietAt_drain [OF returnsQuietlyD [OF handleInvocation_quiet]])
next
  case SysRecv
  show ?thesis
    unfolding syscallSwitch_def SysRecv syscall_t.case
    by (rule quietAt_drain [OF returnsQuietlyD [OF rq_then [OF handleRecv_quiet rq_return]]])
next
  case SysNBRecv
  show ?thesis
    unfolding syscallSwitch_def SysNBRecv syscall_t.case
    by (rule quietAt_drain [OF returnsQuietlyD [OF rq_then [OF handleRecv_quiet rq_return]]])
next
  case SysReply
  with assms have nf: "\<not> handleReplyFatal cfg s"
    by (simp add: syscallSwitchFatal_def)
  show ?thesis
    unfolding syscallSwitch_def SysReply syscall_t.case
    by (rule quietAt_drain [OF quietAt_then [OF handleReply_quiet [OF nf] rq_return]])
next
  case SysReplyRecv
  with assms have nf: "\<not> handleReplyFatal cfg s"
    by (simp add: syscallSwitchFatal_def)
  show ?thesis
    unfolding syscallSwitch_def SysReplyRecv syscall_t.case
    by (rule quietAt_drain [OF quietAt_then [OF handleReply_quiet [OF nf]
                              rq_then [OF handleRecv_quiet rq_return]]])
next
  case SysYield
  with assms have nf: "\<not> handleYieldFatal cfg s"
    by (simp add: syscallSwitchFatal_def)
  show ?thesis
    unfolding syscallSwitch_def SysYield syscall_t.case
    by (rule quietAt_drain [OF quietAt_then [OF handleYield_quiet [OF nf] rq_return]])
next
  case (SysUndefined n)
  with assms show ?thesis
    by (simp add: syscallSwitchFatal_def)
qed

lemma handleSyscall_switch_fatal:
  assumes "checkBudget C (updateTimestamp C (debugState cfg (entry_Syscall syscall) s)) = (True, sb)"
      and "syscallSwitchFatal cfg syscall sb"
  shows "\<exists>e. handleSyscall cfg C syscall (tr, s)
               = Fatal e (tr @ [E_updateTimestamp, E_checkBudget], sb)"
proof -
  from syscallSwitch_fatal [OF assms(2), of C "tr @ [E_updateTimestamp, E_checkBudget]"]
  obtain e where "syscallSwitch cfg C syscall (tr @ [E_updateTimestamp, E_checkBudget], sb)
                    = Fatal e (tr @ [E_updateTimestamp, E_checkBudget], sb)"
    by blast
  with assms(1) have "handleSyscall cfg C syscall (tr, s)
                        = Fatal e (tr @ [E_updateTimestamp, E_checkBudget], sb)"
    by (simp add: handleSyscall_def kernel_defs)
  then show ?thesis by blast
qed

lemma handleSyscall_switch_returns:
  assumes "checkBudget C (updateTimestamp C (debugState cfg (entry_Syscall syscall) s)) = (True, sb)"
      and "\<not> syscallSwitchFatal cfg syscall sb"
  shows "\<exists>path s'. handleSyscall cfg C syscall (tr, s)
                      = Ret EXCEPTION_NONE
                          (tr @ [E_updateTimestamp, E_checkBudget] @ path
                              @ [E_schedule, E_activateThread], s')
                    \<and> E_schedule \<notin> set path \<and> E_activateThread \<notin> set path"
proof -
  from syscallSwitch_quiet [OF assms(2), of C "tr @ [E_updateTimestamp, E_checkBudget]"]
  obtain a path s1 where
    sw: "syscallSwitch cfg C syscall (tr @ [E_updateTimestamp, E_checkBudget], sb)
           = Ret a ((tr @ [E_updateTimestamp, E_checkBudget]) @ path, s1)"
    and clean: "E_schedule \<notin> set path" "E_activateThread \<notin> set path"
    unfolding quietAt_def by blast
  from assms(1) sw have "handleSyscall cfg C syscall (tr, s)
      = Ret EXCEPTION_NONE
          (tr @ [E_updateTimestamp, E_checkBudget] @ path @ [E_schedule, E_activateThread],
           activateThread C (schedule C s1))"
    by (simp add: handleSyscall_def kernel_defs)
  with clean show ?thesis by blast
qed

subsection \<open>The calls of the four entry points without a switch\<close>

lemma handleInterruptEntry_trace:
  assumes "getActiveIRQ C s = (irq, s1)"
  shows "handleInterruptEntry cfg C (tr, s)
           = Ret EXCEPTION_NONE
               (tr @ [E_getActiveIRQ,
                      if irq \<noteq> irqInvalid cfg then E_handleInterrupt irq else E_handleSpuriousIRQ,
                      E_schedule, E_activateThread],
                activateThread C (schedule C
                  (if irq \<noteq> irqInvalid cfg
                   then handleInterrupt C irq (debugState cfg (entry_Interrupt irq) s1)
                   else handleSpuriousIRQ C (debugState cfg (entry_Interrupt irq) s1))))"
  using assms by (simp add: handleInterruptEntry_def kernel_defs)

lemma handleUserLevelFault_trace:
  assumes "checkBudget C (updateTimestamp C (debugState cfg (entry_UserLevelFault w_a w_b) s)) = (b, sb)"
  shows "handleUserLevelFault cfg C w_a w_b (tr, s)
           = Ret EXCEPTION_NONE
               (tr @ [E_updateTimestamp, E_checkBudget,
                      if b then E_handleFault (ksCurThread sb)
                      else E_setThreadState (ksCurThread sb) ThreadState_Restart,
                      E_schedule, E_activateThread],
                activateThread C (schedule C
                  (if b
                   then handleFault C (ksCurThread sb)
                          (sb\<lparr>current_fault := fault_user_exception_new w_a w_b\<rparr>)
                   else setThreadState C (ksCurThread sb) ThreadState_Restart sb)))"
  using assms by (simp add: handleUserLevelFault_def kernel_defs)

lemma handleUnknownSyscall_trace:
  assumes "\<not> diagnosticSyscall cfg w"
      and "checkBudget C (updateTimestamp C (debugState cfg (entry_UnknownSyscall w) s)) = (b, sb)"
  shows "handleUnknownSyscall cfg C w (tr, s)
           = Ret EXCEPTION_NONE
               (tr @ [E_updateTimestamp, E_checkBudget,
                      if b then E_handleFault (ksCurThread sb)
                      else E_setThreadState (ksCurThread sb) ThreadState_Restart,
                      E_schedule, E_activateThread],
                activateThread C (schedule C
                  (if b
                   then handleFault C (ksCurThread sb)
                          (sb\<lparr>current_fault := fault_unknown_syscall_new w\<rparr>)
                   else setThreadState C (ksCurThread sb) ThreadState_Restart sb)))"
  using assms(2)
  by (simp add: handleUnknownSyscall_not_diagnostic [OF assms(1)] unknownSyscallFault_def kernel_defs)

lemma handleVMFaultEvent_trace:
  assumes "checkBudget C (updateTimestamp C (debugState cfg (entry_VMFault vm_faultType) s)) = (b, sb)"
      and "handleVMFault C (ksCurThread sb) vm_faultType sb = (status, sv)"
  shows "handleVMFaultEvent cfg C vm_faultType (tr, s)
           = Ret EXCEPTION_NONE
               (tr @ [E_updateTimestamp, E_checkBudget]
                   @ (if b
                      then E_handleVMFault (ksCurThread sb) vm_faultType
                             # (if status \<noteq> EXCEPTION_NONE then [E_handleFault (ksCurThread sv)] else [])
                      else [E_setThreadState (ksCurThread sb) ThreadState_Restart])
                   @ [E_schedule, E_activateThread],
                activateThread C (schedule C
                  (if b
                   then (if status \<noteq> EXCEPTION_NONE then handleFault C (ksCurThread sv) sv else sv)
                   else setThreadState C (ksCurThread sb) ThreadState_Restart sb)))"
  using assms by (simp add: handleVMFaultEvent_def kernel_defs)

lemma handleSyscall_outcome:
  assumes "checkBudget C (updateTimestamp C (debugState cfg (entry_Syscall syscall) s)) = (b, sb)"
  shows "if b \<and> syscallSwitchFatal cfg syscall sb
         then \<exists>e. handleSyscall cfg C syscall (tr, s)
                     = Fatal e (tr @ [E_updateTimestamp, E_checkBudget], sb)
         else \<exists>path s'. handleSyscall cfg C syscall (tr, s)
                           = Ret EXCEPTION_NONE
                               (tr @ [E_updateTimestamp, E_checkBudget] @ path
                                   @ [E_schedule, E_activateThread], s')
                         \<and> E_schedule \<notin> set path \<and> E_activateThread \<notin> set path"
proof (cases b)
  case True
  with assms show ?thesis
    using handleSyscall_switch_fatal [of C cfg syscall s sb tr]
      handleSyscall_switch_returns [of C cfg syscall s sb tr]
    by (cases "syscallSwitchFatal cfg syscall sb") simp_all
next
  case False
  with assms have "handleSyscall cfg C syscall (tr, s)
      = Ret EXCEPTION_NONE
          (tr @ [E_updateTimestamp, E_checkBudget]
              @ [E_setThreadState (ksCurThread sb) ThreadState_Restart]
              @ [E_schedule, E_activateThread],
           activateThread C (schedule C (setThreadState C (ksCurThread sb) ThreadState_Restart sb)))"
    using handleSyscall_no_budget [of C cfg syscall s sb tr] by (simp add: budgetDeferred_def)
  moreover have "E_schedule \<notin> set [E_setThreadState (ksCurThread sb) ThreadState_Restart]"
    "E_activateThread \<notin> set [E_setThreadState (ksCurThread sb) ThreadState_Restart]"
    by simp_all
  ultimately show ?thesis
    using False by (simp only: simp_thms if_False) blast
qed

subsection \<open>handleSyscall past the budget gate, label by label\<close>

lemma handleSyscall_after_gate:
  assumes "checkBudget C (updateTimestamp C (debugState cfg (entry_Syscall syscall) s)) = (True, sb)"
  shows "handleSyscall cfg C syscall (tr, s)
           = (case syscallSwitch cfg C syscall (tr @ [E_updateTimestamp, E_checkBudget], sb) of
                Fatal e st \<Rightarrow> Fatal e st
              | Ret a st \<Rightarrow>
                  Ret EXCEPTION_NONE
                    (fst st @ [E_schedule, E_activateThread], activateThread C (schedule C (snd st))))"
  using assms by (simp add: handleSyscall_def kernel_defs split: outcome.split)

lemma handleSyscall_invocation_path:
  assumes "checkBudget C (updateTimestamp C (debugState cfg (entry_Syscall syscall) s)) = (True, sb)"
      and "syscall = SysSend \<and> \<not> isCall \<and> isBlocking
           \<or> syscall = SysNBSend \<and> \<not> isCall \<and> \<not> isBlocking
           \<or> syscall = SysCall \<and> isCall \<and> isBlocking"
  shows "\<exists>r path s'.
           handleInvocation cfg C isCall isBlocking (tr @ [E_updateTimestamp, E_checkBudget], sb)
             = Ret r (tr @ [E_updateTimestamp, E_checkBudget] @ path, s')
           \<and> E_schedule \<notin> set path \<and> E_activateThread \<notin> set path
           \<and> handleSyscall cfg C syscall (tr, s)
               = Ret EXCEPTION_NONE
                   (tr @ [E_updateTimestamp, E_checkBudget] @ path
                       @ (if r = EXCEPTION_PREEMPTED
                          then E_getActiveIRQ
                                 # (if fst (getActiveIRQ C s') \<noteq> irqInvalid cfg
                                    then [E_handleInterrupt (fst (getActiveIRQ C s'))] else [])
                          else [])
                       @ [E_schedule, E_activateThread],
                    activateThread C (schedule C
                      (if r = EXCEPTION_PREEMPTED
                       then (if fst (getActiveIRQ C s') \<noteq> irqInvalid cfg
                             then handleInterrupt C (fst (getActiveIRQ C s')) (snd (getActiveIRQ C s'))
                             else snd (getActiveIRQ C s'))
                       else s')))"
proof -
  from handleInvocation_quiet [of cfg C isCall isBlocking]
  obtain r path s' where
    h: "handleInvocation cfg C isCall isBlocking (tr @ [E_updateTimestamp, E_checkBudget], sb)
          = Ret r ((tr @ [E_updateTimestamp, E_checkBudget]) @ path, s')"
    and q: "E_schedule \<notin> set path" "E_activateThread \<notin> set path"
    unfolding returnsQuietly_def quietAt_def by blast
  have "handleSyscall cfg C syscall (tr, s)
               = Ret EXCEPTION_NONE
                   (tr @ [E_updateTimestamp, E_checkBudget] @ path
                       @ (if r = EXCEPTION_PREEMPTED
                          then E_getActiveIRQ
                                 # (if fst (getActiveIRQ C s') \<noteq> irqInvalid cfg
                                    then [E_handleInterrupt (fst (getActiveIRQ C s'))] else [])
                          else [])
                       @ [E_schedule, E_activateThread],
                    activateThread C (schedule C
                      (if r = EXCEPTION_PREEMPTED
                       then (if fst (getActiveIRQ C s') \<noteq> irqInvalid cfg
                             then handleInterrupt C (fst (getActiveIRQ C s')) (snd (getActiveIRQ C s'))
                             else snd (getActiveIRQ C s'))
                       else s')))"
    using assms(2) h
    unfolding handleSyscall_after_gate [OF assms(1)]
    by (elim disjE conjE; simp add: syscallSwitch_def kernel_defs)
  with h q show ?thesis by auto
qed

lemma handleSyscall_recv_path:
  assumes "checkBudget C (updateTimestamp C (debugState cfg (entry_Syscall syscall) s)) = (True, sb)"
      and "syscall = SysRecv \<and> isBlocking \<or> syscall = SysNBRecv \<and> \<not> isBlocking"
  shows "\<exists>path s'.
           handleRecv C isBlocking (tr @ [E_updateTimestamp, E_checkBudget], sb)
             = Ret () (tr @ [E_updateTimestamp, E_checkBudget] @ path, s')
           \<and> E_schedule \<notin> set path \<and> E_activateThread \<notin> set path
           \<and> handleSyscall cfg C syscall (tr, s)
               = Ret EXCEPTION_NONE
                   (tr @ [E_updateTimestamp, E_checkBudget] @ path @ [E_schedule, E_activateThread],
                    activateThread C (schedule C s'))"
proof -
  from handleRecv_quiet [of C isBlocking]
  obtain a path s' where
    h: "handleRecv C isBlocking (tr @ [E_updateTimestamp, E_checkBudget], sb)
          = Ret a ((tr @ [E_updateTimestamp, E_checkBudget]) @ path, s')"
    and q: "E_schedule \<notin> set path" "E_activateThread \<notin> set path"
    unfolding returnsQuietly_def quietAt_def by blast
  have "handleSyscall cfg C syscall (tr, s)
               = Ret EXCEPTION_NONE
                   (tr @ [E_updateTimestamp, E_checkBudget] @ path @ [E_schedule, E_activateThread],
                    activateThread C (schedule C s'))"
    using assms(2) h
    unfolding handleSyscall_after_gate [OF assms(1)]
    by (elim disjE conjE; simp add: syscallSwitch_def kernel_defs)
  with h q show ?thesis by auto
qed

lemma handleSyscall_reply_path:
  assumes "checkBudget C (updateTimestamp C (debugState cfg (entry_Syscall SysReply) s)) = (True, sb)"
  shows "if handleReplyFatal cfg sb
         then \<exists>e. handleReply cfg C (tr @ [E_updateTimestamp, E_checkBudget], sb)
                     = Fatal e (tr @ [E_updateTimestamp, E_checkBudget], sb)
                   \<and> handleSyscall cfg C SysReply (tr, s)
                       = Fatal e (tr @ [E_updateTimestamp, E_checkBudget], sb)
         else \<exists>path s'.
                handleReply cfg C (tr @ [E_updateTimestamp, E_checkBudget], sb)
                  = Ret () (tr @ [E_updateTimestamp, E_checkBudget] @ path, s')
                \<and> E_schedule \<notin> set path \<and> E_activateThread \<notin> set path
                \<and> handleSyscall cfg C SysReply (tr, s)
                    = Ret EXCEPTION_NONE
                        (tr @ [E_updateTimestamp, E_checkBudget] @ path @ [E_schedule, E_activateThread],
                         activateThread C (schedule C s'))"
proof (cases "handleReplyFatal cfg sb")
  case True
  from handleReply_fatal [OF True, of C "tr @ [E_updateTimestamp, E_checkBudget]"]
  obtain e where
    h: "handleReply cfg C (tr @ [E_updateTimestamp, E_checkBudget], sb)
          = Fatal e (tr @ [E_updateTimestamp, E_checkBudget], sb)"
    by blast
  then have "handleSyscall cfg C SysReply (tr, s) = Fatal e (tr @ [E_updateTimestamp, E_checkBudget], sb)"
    by (simp add: handleSyscall_after_gate [OF assms] syscallSwitch_def bindK_def thenK_def)
  with h True show ?thesis by auto
next
  case False
  from handleReply_quiet [OF False, of C "tr @ [E_updateTimestamp, E_checkBudget]"]
  obtain a path s' where
    h: "handleReply cfg C (tr @ [E_updateTimestamp, E_checkBudget], sb)
          = Ret a ((tr @ [E_updateTimestamp, E_checkBudget]) @ path, s')"
    and q: "E_schedule \<notin> set path" "E_activateThread \<notin> set path"
    unfolding quietAt_def by blast
  then have "handleSyscall cfg C SysReply (tr, s)
      = Ret EXCEPTION_NONE
          (tr @ [E_updateTimestamp, E_checkBudget] @ path @ [E_schedule, E_activateThread],
           activateThread C (schedule C s'))"
    by (simp add: handleSyscall_after_gate [OF assms] syscallSwitch_def kernel_defs)
  with h q False show ?thesis by auto
qed

lemma handleSyscall_replyRecv_path:
  assumes "checkBudget C (updateTimestamp C (debugState cfg (entry_Syscall SysReplyRecv) s)) = (True, sb)"
  shows "if handleReplyFatal cfg sb
         then \<exists>e. handleReply cfg C (tr @ [E_updateTimestamp, E_checkBudget], sb)
                     = Fatal e (tr @ [E_updateTimestamp, E_checkBudget], sb)
                   \<and> handleSyscall cfg C SysReplyRecv (tr, s)
                       = Fatal e (tr @ [E_updateTimestamp, E_checkBudget], sb)
         else \<exists>p1 s1 p2 s2.
                handleReply cfg C (tr @ [E_updateTimestamp, E_checkBudget], sb)
                  = Ret () (tr @ [E_updateTimestamp, E_checkBudget] @ p1, s1)
                \<and> handleRecv C True (tr @ [E_updateTimestamp, E_checkBudget] @ p1, s1)
                    = Ret () (tr @ [E_updateTimestamp, E_checkBudget] @ p1 @ p2, s2)
                \<and> E_schedule \<notin> set (p1 @ p2) \<and> E_activateThread \<notin> set (p1 @ p2)
                \<and> handleSyscall cfg C SysReplyRecv (tr, s)
                    = Ret EXCEPTION_NONE
                        (tr @ [E_updateTimestamp, E_checkBudget] @ p1 @ p2
                            @ [E_schedule, E_activateThread],
                         activateThread C (schedule C s2))"
proof (cases "handleReplyFatal cfg sb")
  case True
  from handleReply_fatal [OF True, of C "tr @ [E_updateTimestamp, E_checkBudget]"]
  obtain e where
    h: "handleReply cfg C (tr @ [E_updateTimestamp, E_checkBudget], sb)
          = Fatal e (tr @ [E_updateTimestamp, E_checkBudget], sb)"
    by blast
  then have "handleSyscall cfg C SysReplyRecv (tr, s)
               = Fatal e (tr @ [E_updateTimestamp, E_checkBudget], sb)"
    by (simp add: handleSyscall_after_gate [OF assms] syscallSwitch_def bindK_def thenK_def)
  with h True show ?thesis by auto
next
  case False
  from handleReply_quiet [OF False, of C "tr @ [E_updateTimestamp, E_checkBudget]"]
  obtain a p1 s1 where
    h1: "handleReply cfg C (tr @ [E_updateTimestamp, E_checkBudget], sb)
           = Ret a ((tr @ [E_updateTimestamp, E_checkBudget]) @ p1, s1)"
    and q1: "E_schedule \<notin> set p1" "E_activateThread \<notin> set p1"
    unfolding quietAt_def by blast
  from handleRecv_quiet [of C True]
  obtain a' p2 s2 where
    h2: "handleRecv C True ((tr @ [E_updateTimestamp, E_checkBudget]) @ p1, s1)
           = Ret a' (((tr @ [E_updateTimestamp, E_checkBudget]) @ p1) @ p2, s2)"
    and q2: "E_schedule \<notin> set p2" "E_activateThread \<notin> set p2"
    unfolding returnsQuietly_def quietAt_def by blast
  from h1 h2 have "handleSyscall cfg C SysReplyRecv (tr, s)
      = Ret EXCEPTION_NONE
          (tr @ [E_updateTimestamp, E_checkBudget] @ p1 @ p2 @ [E_schedule, E_activateThread],
           activateThread C (schedule C s2))"
    by (simp add: handleSyscall_after_gate [OF assms] syscallSwitch_def kernel_defs)
  with h1 h2 q1 q2 False show ?thesis by auto
qed

lemma handleSyscall_yield_path:
  assumes "checkBudget C (updateTimestamp C (debugState cfg (entry_Syscall SysYield) s)) = (True, sb)"
  shows "if handleYieldFatal cfg sb
         then \<exists>e. handleYield cfg C (tr @ [E_updateTimestamp, E_checkBudget], sb)
                     = Fatal e (tr @ [E_updateTimestamp, E_checkBudget], sb)
                   \<and> handleSyscall cfg C SysYield (tr, s)
                       = Fatal e (tr @ [E_updateTimestamp, E_checkBudget], sb)
         else \<exists>path s'.
                handleYield cfg C (tr @ [E_updateTimestamp, E_checkBudget], sb)
                  = Ret () (tr @ [E_updateTimestamp, E_checkBudget] @ path, s')
                \<and> E_schedule \<notin> set path \<and> E_activateThread \<notin> set path
                \<and> handleSyscall cfg C SysYield (tr, s)
                    = Ret EXCEPTION_NONE
                        (tr @ [E_updateTimestamp, E_checkBudget] @ path @ [E_schedule, E_activateThread],
                         activateThread C (schedule C s'))"
proof (cases "handleYieldFatal cfg sb")
  case True
  from handleYield_fatal [OF True, of C "tr @ [E_updateTimestamp, E_checkBudget]"]
  obtain e where
    h: "handleYield cfg C (tr @ [E_updateTimestamp, E_checkBudget], sb)
          = Fatal e (tr @ [E_updateTimestamp, E_checkBudget], sb)"
    by blast
  then have "handleSyscall cfg C SysYield (tr, s) = Fatal e (tr @ [E_updateTimestamp, E_checkBudget], sb)"
    by (simp add: handleSyscall_after_gate [OF assms] syscallSwitch_def bindK_def thenK_def)
  with h True show ?thesis by auto
next
  case False
  from handleYield_quiet [OF False, of C "tr @ [E_updateTimestamp, E_checkBudget]"]
  obtain a path s' where
    h: "handleYield cfg C (tr @ [E_updateTimestamp, E_checkBudget], sb)
          = Ret a ((tr @ [E_updateTimestamp, E_checkBudget]) @ path, s')"
    and q: "E_schedule \<notin> set path" "E_activateThread \<notin> set path"
    unfolding quietAt_def by blast
  then have "handleSyscall cfg C SysYield (tr, s)
      = Ret EXCEPTION_NONE
          (tr @ [E_updateTimestamp, E_checkBudget] @ path @ [E_schedule, E_activateThread],
           activateThread C (schedule C s'))"
    by (simp add: handleSyscall_after_gate [OF assms] syscallSwitch_def kernel_defs)
  with h q False show ?thesis by auto
qed

lemma handleSyscall_undefined_path:
  assumes "checkBudget C (updateTimestamp C (debugState cfg (entry_Syscall (SysUndefined n)) s)) = (True, sb)"
  shows "handleSyscall cfg C (SysUndefined n) (tr, s)
           = Fatal (Fail ''Invalid syscall'') (tr @ [E_updateTimestamp, E_checkBudget], sb)"
  by (simp add: handleSyscall_after_gate [OF assms] syscallSwitch_def bindK_def failK_def)

subsection \<open>C4: every entry point ends with schedule and activateThread\<close>

text \<open>
  C4 says that every entry point, on every input, runs one handling path and then calls
  \<^verbatim>\<open>schedule()\<close> and \<^verbatim>\<open>activateThread()\<close> before it returns. \<^verbatim>\<open>handleSyscall\<close> with
  budget and an opcode that is none of the labels of its switch reaches
  \<^verbatim>\<open>fail("Invalid syscall")\<close> and calls neither.
\<close>

theorem handleSyscall_invalid_opcode_counterexample:
  "handleSyscall cfg0 C0 (SysUndefined 99) ([], s0)
     = Fatal (Fail ''Invalid syscall'') ([E_updateTimestamp, E_checkBudget], s0)"
  by (simp add: handleSyscall_def syscallSwitch_def kernel_defs C0_def debugState_def cfg0_def)

text \<open>
  In a \<^verbatim>\<open>DEBUG\<close> build, the debug system calls of \<^verbatim>\<open>handleUnknownSyscall\<close> return
  from inside their block, again without the two calls.
\<close>

lemma handleUnknownSyscall_debug_returns_early:
  "handleUnknownSyscall (cfg0\<lparr>DEBUG := True\<rparr>) C0 9 ([], s0)
     = Ret EXCEPTION_NONE ([E_kernel_putchar 5], entry_UnknownSyscall 9 s0)"
  by (simp add: handleUnknownSyscall_def kernel_defs debugState_def cfg0_def C0_def
        getRegister_def entry_UnknownSyscall_def s0_def tcb0_def)

text \<open>
  C4 as amended. \<^verbatim>\<open>handleInterruptEntry\<close>, \<^verbatim>\<open>handleUserLevelFault\<close> and
  \<^verbatim>\<open>handleVMFaultEvent\<close> on every input, and \<^verbatim>\<open>handleUnknownSyscall\<close> on every number
  that no debug, code-injection or benchmark block of the build serves, run exactly one
  of their handling paths (the interrupt or the spurious-interrupt handler; the fault
  delivery or the restart for lack of budget), then call \<^verbatim>\<open>schedule\<close> and
  \<^verbatim>\<open>activateThread\<close> as their last two calls, and return \<^verbatim>\<open>EXCEPTION_NONE\<close>.

  \<^verbatim>\<open>handleSyscall\<close> runs exactly the path of its opcode. Without budget, for every
  opcode, its calls are the timestamp update, the budget check, the restart of the
  current thread, \<^verbatim>\<open>schedule\<close> and \<^verbatim>\<open>activateThread\<close>. With budget, the calls
  between the budget check and \<^verbatim>\<open>schedule\<close> are those of the handler of the label,
  run once from the state that the budget check left, and the state handed to
  \<^verbatim>\<open>schedule\<close> is the one that handler returned: \<^verbatim>\<open>handleInvocation\<close> with the flags
  of the label for \<^verbatim>\<open>SysSend\<close>, \<^verbatim>\<open>SysNBSend\<close> and \<^verbatim>\<open>SysCall\<close> (followed, if it was
  preempted, by \<^verbatim>\<open>getActiveIRQ\<close> and \<^verbatim>\<open>handleInterrupt\<close> on a valid interrupt);
  \<^verbatim>\<open>handleRecv\<close>, blocking or not, for \<^verbatim>\<open>SysRecv\<close> and \<^verbatim>\<open>SysNBRecv\<close>;
  \<^verbatim>\<open>handleReply\<close> for \<^verbatim>\<open>SysReply\<close>; \<^verbatim>\<open>handleReply\<close> and then \<^verbatim>\<open>handleRecv\<close>
  (blocking) for \<^verbatim>\<open>SysReplyRecv\<close>; \<^verbatim>\<open>handleYield\<close> for \<^verbatim>\<open>SysYield\<close>. None of these
  calls is \<^verbatim>\<open>schedule\<close> or \<^verbatim>\<open>activateThread\<close>, which follow once each, last, and the
  result is \<^verbatim>\<open>EXCEPTION_NONE\<close>. The exceptions are the fatal stops: where
  \<^verbatim>\<open>handleReply\<close> or \<^verbatim>\<open>handleYield\<close> stops (\<open>handleReplyFatal\<close>,
  \<open>handleYieldFatal\<close>), \<^verbatim>\<open>handleSyscall\<close> stops with the same error right after the
  budget check, and on an opcode that is none of the labels it stops in "Invalid
  syscall"; \<^verbatim>\<open>schedule\<close> is not called then.
\<close>

theorem entry_points_end_with_schedule_activateThread:
  "(getActiveIRQ C s = (irq, s1)
      \<longrightarrow> (\<exists>s'. handleInterruptEntry cfg C (tr, s)
               = Ret EXCEPTION_NONE
                   (tr @ [E_getActiveIRQ,
                          if irq \<noteq> irqInvalid cfg then E_handleInterrupt irq else E_handleSpuriousIRQ,
                          E_schedule, E_activateThread], s')))
   \<and> (\<not> diagnosticSyscall cfg w
       \<and> checkBudget C (updateTimestamp C (debugState cfg (entry_UnknownSyscall w) s)) = (b, sb)
      \<longrightarrow> (\<exists>s'. handleUnknownSyscall cfg C w (tr, s)
               = Ret EXCEPTION_NONE
                   (tr @ [E_updateTimestamp, E_checkBudget,
                          if b then E_handleFault (ksCurThread sb)
                          else E_setThreadState (ksCurThread sb) ThreadState_Restart,
                          E_schedule, E_activateThread], s')))
   \<and> (checkBudget C (updateTimestamp C (debugState cfg (entry_UserLevelFault w_a w_b) s)) = (b, sb)
      \<longrightarrow> (\<exists>s'. handleUserLevelFault cfg C w_a w_b (tr, s)
               = Ret EXCEPTION_NONE
                   (tr @ [E_updateTimestamp, E_checkBudget,
                          if b then E_handleFault (ksCurThread sb)
                          else E_setThreadState (ksCurThread sb) ThreadState_Restart,
                          E_schedule, E_activateThread], s')))
   \<and> (checkBudget C (updateTimestamp C (debugState cfg (entry_VMFault vm_faultType) s)) = (b, sb)
       \<and> handleVMFault C (ksCurThread sb) vm_faultType sb = (status, sv)
      \<longrightarrow> (\<exists>s'. handleVMFaultEvent cfg C vm_faultType (tr, s)
               = Ret EXCEPTION_NONE
                   (tr @ [E_updateTimestamp, E_checkBudget]
                       @ (if b
                          then E_handleVMFault (ksCurThread sb) vm_faultType
                                 # (if status \<noteq> EXCEPTION_NONE
                                    then [E_handleFault (ksCurThread sv)] else [])
                          else [E_setThreadState (ksCurThread sb) ThreadState_Restart])
                       @ [E_schedule, E_activateThread], s')))
   \<and> (checkBudget C (updateTimestamp C (debugState cfg (entry_Syscall syscall) s)) = (False, sb)
      \<longrightarrow> handleSyscall cfg C syscall (tr, s)
             = Ret EXCEPTION_NONE
                 (tr @ [E_updateTimestamp, E_checkBudget,
                        E_setThreadState (ksCurThread sb) ThreadState_Restart,
                        E_schedule, E_activateThread],
                  activateThread C (schedule C
                    (setThreadState C (ksCurThread sb) ThreadState_Restart sb))))
   \<and> (checkBudget C (updateTimestamp C (debugState cfg (entry_Syscall syscall) s)) = (True, sb)
       \<and> (syscall = SysSend \<and> \<not> isCall \<and> isBlocking
          \<or> syscall = SysNBSend \<and> \<not> isCall \<and> \<not> isBlocking
          \<or> syscall = SysCall \<and> isCall \<and> isBlocking)
      \<longrightarrow> (\<exists>r path s'.
               handleInvocation cfg C isCall isBlocking (tr @ [E_updateTimestamp, E_checkBudget], sb)
                 = Ret r (tr @ [E_updateTimestamp, E_checkBudget] @ path, s')
               \<and> E_schedule \<notin> set path \<and> E_activateThread \<notin> set path
               \<and> handleSyscall cfg C syscall (tr, s)
                   = Ret EXCEPTION_NONE
                       (tr @ [E_updateTimestamp, E_checkBudget] @ path
                           @ (if r = EXCEPTION_PREEMPTED
                              then E_getActiveIRQ
                                     # (if fst (getActiveIRQ C s') \<noteq> irqInvalid cfg
                                        then [E_handleInterrupt (fst (getActiveIRQ C s'))] else [])
                              else [])
                           @ [E_schedule, E_activateThread],
                        activateThread C (schedule C
                          (if r = EXCEPTION_PREEMPTED
                           then (if fst (getActiveIRQ C s') \<noteq> irqInvalid cfg
                                 then handleInterrupt C (fst (getActiveIRQ C s')) (snd (getActiveIRQ C s'))
                                 else snd (getActiveIRQ C s'))
                           else s')))))
   \<and> (checkBudget C (updateTimestamp C (debugState cfg (entry_Syscall syscall) s)) = (True, sb)
       \<and> (syscall = SysRecv \<and> isBlocking \<or> syscall = SysNBRecv \<and> \<not> isBlocking)
      \<longrightarrow> (\<exists>path s'.
               handleRecv C isBlocking (tr @ [E_updateTimestamp, E_checkBudget], sb)
                 = Ret () (tr @ [E_updateTimestamp, E_checkBudget] @ path, s')
               \<and> E_schedule \<notin> set path \<and> E_activateThread \<notin> set path
               \<and> handleSyscall cfg C syscall (tr, s)
                   = Ret EXCEPTION_NONE
                       (tr @ [E_updateTimestamp, E_checkBudget] @ path @ [E_schedule, E_activateThread],
                        activateThread C (schedule C s'))))
   \<and> (checkBudget C (updateTimestamp C (debugState cfg (entry_Syscall SysReply) s)) = (True, sb)
      \<longrightarrow> (if handleReplyFatal cfg sb
             then \<exists>e. handleReply cfg C (tr @ [E_updateTimestamp, E_checkBudget], sb)
                         = Fatal e (tr @ [E_updateTimestamp, E_checkBudget], sb)
                       \<and> handleSyscall cfg C SysReply (tr, s)
                           = Fatal e (tr @ [E_updateTimestamp, E_checkBudget], sb)
             else \<exists>path s'.
                    handleReply cfg C (tr @ [E_updateTimestamp, E_checkBudget], sb)
                      = Ret () (tr @ [E_updateTimestamp, E_checkBudget] @ path, s')
                    \<and> E_schedule \<notin> set path \<and> E_activateThread \<notin> set path
                    \<and> handleSyscall cfg C SysReply (tr, s)
                        = Ret EXCEPTION_NONE
                            (tr @ [E_updateTimestamp, E_checkBudget] @ path @ [E_schedule, E_activateThread],
                             activateThread C (schedule C s'))))
   \<and> (checkBudget C (updateTimestamp C (debugState cfg (entry_Syscall SysReplyRecv) s)) = (True, sb)
      \<longrightarrow> (if handleReplyFatal cfg sb
             then \<exists>e. handleReply cfg C (tr @ [E_updateTimestamp, E_checkBudget], sb)
                         = Fatal e (tr @ [E_updateTimestamp, E_checkBudget], sb)
                       \<and> handleSyscall cfg C SysReplyRecv (tr, s)
                           = Fatal e (tr @ [E_updateTimestamp, E_checkBudget], sb)
             else \<exists>p1 s1 p2 s2.
                    handleReply cfg C (tr @ [E_updateTimestamp, E_checkBudget], sb)
                      = Ret () (tr @ [E_updateTimestamp, E_checkBudget] @ p1, s1)
                    \<and> handleRecv C True (tr @ [E_updateTimestamp, E_checkBudget] @ p1, s1)
                        = Ret () (tr @ [E_updateTimestamp, E_checkBudget] @ p1 @ p2, s2)
                    \<and> E_schedule \<notin> set (p1 @ p2) \<and> E_activateThread \<notin> set (p1 @ p2)
                    \<and> handleSyscall cfg C SysReplyRecv (tr, s)
                        = Ret EXCEPTION_NONE
                            (tr @ [E_updateTimestamp, E_checkBudget] @ p1 @ p2
                                @ [E_schedule, E_activateThread],
                             activateThread C (schedule C s2))))
   \<and> (checkBudget C (updateTimestamp C (debugState cfg (entry_Syscall SysYield) s)) = (True, sb)
      \<longrightarrow> (if handleYieldFatal cfg sb
             then \<exists>e. handleYield cfg C (tr @ [E_updateTimestamp, E_checkBudget], sb)
                         = Fatal e (tr @ [E_updateTimestamp, E_checkBudget], sb)
                       \<and> handleSyscall cfg C SysYield (tr, s)
                           = Fatal e (tr @ [E_updateTimestamp, E_checkBudget], sb)
             else \<exists>path s'.
                    handleYield cfg C (tr @ [E_updateTimestamp, E_checkBudget], sb)
                      = Ret () (tr @ [E_updateTimestamp, E_checkBudget] @ path, s')
                    \<and> E_schedule \<notin> set path \<and> E_activateThread \<notin> set path
                    \<and> handleSyscall cfg C SysYield (tr, s)
                        = Ret EXCEPTION_NONE
                            (tr @ [E_updateTimestamp, E_checkBudget] @ path @ [E_schedule, E_activateThread],
                             activateThread C (schedule C s'))))
   \<and> (checkBudget C (updateTimestamp C (debugState cfg (entry_Syscall (SysUndefined n)) s)) = (True, sb)
      \<longrightarrow> handleSyscall cfg C (SysUndefined n) (tr, s)
             = Fatal (Fail ''Invalid syscall'') (tr @ [E_updateTimestamp, E_checkBudget], sb))"
  apply (intro conjI impI; (elim conjE)?)
  subgoal using handleInterruptEntry_trace [where C = C and s = s and cfg = cfg and tr = tr] by blast
  subgoal using handleUnknownSyscall_trace [where C = C and s = s and cfg = cfg and tr = tr] by blast
  subgoal using handleUserLevelFault_trace [where C = C and s = s and cfg = cfg and tr = tr] by blast
  subgoal using handleVMFaultEvent_trace [where C = C and s = s and cfg = cfg and tr = tr] by blast
  subgoal using handleSyscall_no_budget [where C = C and s = s and cfg = cfg and tr = tr]
    by (simp add: budgetDeferred_def)
  subgoal by (rule handleSyscall_invocation_path; assumption)
  subgoal by (rule handleSyscall_recv_path; assumption)
  subgoal by (rule handleSyscall_reply_path; assumption)
  subgoal by (rule handleSyscall_replyRecv_path; assumption)
  subgoal by (rule handleSyscall_yield_path; assumption)
  subgoal by (rule handleSyscall_undefined_path; assumption)
  done

theorem entry_points_end_with_schedule_activateThread_witness:
  "getActiveIRQ C0 s0 = (3, s0)
   \<and> (\<exists>s'. handleInterruptEntry cfg0 C0 ([], s0)
           = Ret EXCEPTION_NONE
               ([] @ [E_getActiveIRQ,
                      if 3 \<noteq> irqInvalid cfg0 then E_handleInterrupt 3 else E_handleSpuriousIRQ,
                      E_schedule, E_activateThread], s'))
   \<and> \<not> diagnosticSyscall cfg0 77
   \<and> checkBudget C0 (updateTimestamp C0 (debugState cfg0 (entry_UnknownSyscall 77) s0)) = (True, s0)
   \<and> (\<exists>s'. handleUnknownSyscall cfg0 C0 77 ([], s0)
           = Ret EXCEPTION_NONE
               ([] @ [E_updateTimestamp, E_checkBudget,
                      if True then E_handleFault (ksCurThread s0)
                      else E_setThreadState (ksCurThread s0) ThreadState_Restart,
                      E_schedule, E_activateThread], s'))
   \<and> checkBudget C0 (updateTimestamp C0 (debugState cfg0 (entry_UserLevelFault 3 4) s0)) = (True, s0)
   \<and> (\<exists>s'. handleUserLevelFault cfg0 C0 3 4 ([], s0)
           = Ret EXCEPTION_NONE
               ([] @ [E_updateTimestamp, E_checkBudget,
                      if True then E_handleFault (ksCurThread s0)
                      else E_setThreadState (ksCurThread s0) ThreadState_Restart,
                      E_schedule, E_activateThread], s'))
   \<and> checkBudget C0 (updateTimestamp C0 (debugState cfg0 (entry_VMFault 2) s0)) = (True, s0)
   \<and> handleVMFault C0 (ksCurThread s0) 2 s0 = (EXCEPTION_FAULT, s0)
   \<and> (\<exists>s'. handleVMFaultEvent cfg0 C0 2 ([], s0)
           = Ret EXCEPTION_NONE
               ([] @ [E_updateTimestamp, E_checkBudget]
                   @ (if True
                      then E_handleVMFault (ksCurThread s0) 2
                             # (if EXCEPTION_FAULT \<noteq> EXCEPTION_NONE
                                then [E_handleFault (ksCurThread s0)] else [])
                      else [E_setThreadState (ksCurThread s0) ThreadState_Restart])
                   @ [E_schedule, E_activateThread], s'))
   \<and> checkBudget C_noBudget (updateTimestamp C_noBudget (debugState cfg0 (entry_Syscall SysCall) s0)) = (False, s0)
   \<and> (handleSyscall cfg0 C_noBudget SysCall ([], s0)
         = Ret EXCEPTION_NONE
             ([] @ [E_updateTimestamp, E_checkBudget,
                    E_setThreadState (ksCurThread s0) ThreadState_Restart,
                    E_schedule, E_activateThread],
              activateThread C_noBudget (schedule C_noBudget
                (setThreadState C_noBudget (ksCurThread s0) ThreadState_Restart s0))))
   \<and> checkBudget C0 (updateTimestamp C0 (debugState cfg0 (entry_Syscall SysCall) s0)) = (True, s0)
   \<and> (SysCall = SysSend \<and> \<not> True \<and> True
          \<or> SysCall = SysNBSend \<and> \<not> True \<and> \<not> True
          \<or> SysCall = SysCall \<and> True \<and> True)
   \<and> (\<exists>r path s'.
           handleInvocation cfg0 C0 True True ([] @ [E_updateTimestamp, E_checkBudget], s0)
             = Ret r ([] @ [E_updateTimestamp, E_checkBudget] @ path, s')
           \<and> E_schedule \<notin> set path \<and> E_activateThread \<notin> set path
           \<and> handleSyscall cfg0 C0 SysCall ([], s0)
               = Ret EXCEPTION_NONE
                   ([] @ [E_updateTimestamp, E_checkBudget] @ path
                       @ (if r = EXCEPTION_PREEMPTED
                          then E_getActiveIRQ
                                 # (if fst (getActiveIRQ C0 s') \<noteq> irqInvalid cfg0
                                    then [E_handleInterrupt (fst (getActiveIRQ C0 s'))] else [])
                          else [])
                       @ [E_schedule, E_activateThread],
                    activateThread C0 (schedule C0
                      (if r = EXCEPTION_PREEMPTED
                       then (if fst (getActiveIRQ C0 s') \<noteq> irqInvalid cfg0
                             then handleInterrupt C0 (fst (getActiveIRQ C0 s')) (snd (getActiveIRQ C0 s'))
                             else snd (getActiveIRQ C0 s'))
                       else s'))))
   \<and> checkBudget C0 (updateTimestamp C0 (debugState cfg0 (entry_Syscall SysRecv) s0)) = (True, s0)
   \<and> (SysRecv = SysRecv \<and> True \<or> SysRecv = SysNBRecv \<and> \<not> True)
   \<and> (\<exists>path s'.
           handleRecv C0 True ([] @ [E_updateTimestamp, E_checkBudget], s0)
             = Ret () ([] @ [E_updateTimestamp, E_checkBudget] @ path, s')
           \<and> E_schedule \<notin> set path \<and> E_activateThread \<notin> set path
           \<and> handleSyscall cfg0 C0 SysRecv ([], s0)
               = Ret EXCEPTION_NONE
                   ([] @ [E_updateTimestamp, E_checkBudget] @ path @ [E_schedule, E_activateThread],
                    activateThread C0 (schedule C0 s')))
   \<and> checkBudget C0 (updateTimestamp C0 (debugState cfg0 (entry_Syscall SysReply) s_master)) = (True, s_master)
   \<and> handleReplyFatal cfg0 s_master
   \<and> (\<exists>e. handleReply cfg0 C0 ([] @ [E_updateTimestamp, E_checkBudget], s_master)
                     = Fatal e ([] @ [E_updateTimestamp, E_checkBudget], s_master)
                   \<and> handleSyscall cfg0 C0 SysReply ([], s_master)
                       = Fatal e ([] @ [E_updateTimestamp, E_checkBudget], s_master))
   \<and> checkBudget C0 (updateTimestamp C0 (debugState cfg0 (entry_Syscall SysReplyRecv) s_reply)) = (True, s_reply)
   \<and> \<not> handleReplyFatal cfg0 s_reply
   \<and> (\<exists>p1 s1 p2 s2.
                handleReply cfg0 C0 ([] @ [E_updateTimestamp, E_checkBudget], s_reply)
                  = Ret () ([] @ [E_updateTimestamp, E_checkBudget] @ p1, s1)
                \<and> handleRecv C0 True ([] @ [E_updateTimestamp, E_checkBudget] @ p1, s1)
                    = Ret () ([] @ [E_updateTimestamp, E_checkBudget] @ p1 @ p2, s2)
                \<and> E_schedule \<notin> set (p1 @ p2) \<and> E_activateThread \<notin> set (p1 @ p2)
                \<and> handleSyscall cfg0 C0 SysReplyRecv ([], s_reply)
                    = Ret EXCEPTION_NONE
                        ([] @ [E_updateTimestamp, E_checkBudget] @ p1 @ p2
                            @ [E_schedule, E_activateThread],
                         activateThread C0 (schedule C0 s2)))
   \<and> checkBudget C0 (updateTimestamp C0 (debugState cfg0 (entry_Syscall SysYield) s0)) = (True, s0)
   \<and> \<not> handleYieldFatal cfg0 s0
   \<and> (\<exists>path s'.
                handleYield cfg0 C0 ([] @ [E_updateTimestamp, E_checkBudget], s0)
                  = Ret () ([] @ [E_updateTimestamp, E_checkBudget] @ path, s')
                \<and> E_schedule \<notin> set path \<and> E_activateThread \<notin> set path
                \<and> handleSyscall cfg0 C0 SysYield ([], s0)
                    = Ret EXCEPTION_NONE
                        ([] @ [E_updateTimestamp, E_checkBudget] @ path @ [E_schedule, E_activateThread],
                         activateThread C0 (schedule C0 s')))
   \<and> checkBudget C0 (updateTimestamp C0 (debugState cfg0 (entry_Syscall (SysUndefined 99)) s0)) = (True, s0)
   \<and> (handleSyscall cfg0 C0 (SysUndefined 99) ([], s0)
         = Fatal (Fail ''Invalid syscall'') ([] @ [E_updateTimestamp, E_checkBudget], s0))"
proof -
  note T = entry_points_end_with_schedule_activateThread
  have h0_0: "getActiveIRQ C0 s0 = (3, s0)"
    by (simp add: C0_def C_noBudget_def debugState_def cfg0_def diagnosticSyscall_def)
  have c0: "(\<exists>s'. handleInterruptEntry cfg0 C0 ([], s0)
           = Ret EXCEPTION_NONE
               ([] @ [E_getActiveIRQ,
                      if 3 \<noteq> irqInvalid cfg0 then E_handleInterrupt 3 else E_handleSpuriousIRQ,
                      E_schedule, E_activateThread], s'))"
    by (rule T [where C = "C0" and cfg = "cfg0" and s = "s0" and tr = "[]" and irq = "3" and ?s1.0 = "s0" and w = "77" and b = "True" and sb = "s0" and w_a = "3" and w_b = "4" and vm_faultType = "2" and status = "EXCEPTION_FAULT" and sv = "s0" and syscall = "SysCall" and isCall = "True" and isBlocking = "True" and n = "99",
             THEN conjunct1, rule_format, OF h0_0])
  note w0 = h0_0 c0
  have h1_0: "\<not> diagnosticSyscall cfg0 77"
    by (simp add: C0_def C_noBudget_def debugState_def cfg0_def diagnosticSyscall_def)
  have h1_1: "checkBudget C0 (updateTimestamp C0 (debugState cfg0 (entry_UnknownSyscall 77) s0)) = (True, s0)"
    by (simp add: C0_def C_noBudget_def debugState_def cfg0_def diagnosticSyscall_def)
  have c1: "(\<exists>s'. handleUnknownSyscall cfg0 C0 77 ([], s0)
           = Ret EXCEPTION_NONE
               ([] @ [E_updateTimestamp, E_checkBudget,
                      if True then E_handleFault (ksCurThread s0)
                      else E_setThreadState (ksCurThread s0) ThreadState_Restart,
                      E_schedule, E_activateThread], s'))"
    by (rule T [where C = "C0" and cfg = "cfg0" and s = "s0" and tr = "[]" and irq = "3" and ?s1.0 = "s0" and w = "77" and b = "True" and sb = "s0" and w_a = "3" and w_b = "4" and vm_faultType = "2" and status = "EXCEPTION_FAULT" and sv = "s0" and syscall = "SysCall" and isCall = "True" and isBlocking = "True" and n = "99",
             THEN conjunct2, THEN conjunct1, rule_format, OF conjI [OF h1_0 h1_1]])
  note w1 = h1_0 h1_1 c1
  have h2_0: "checkBudget C0 (updateTimestamp C0 (debugState cfg0 (entry_UserLevelFault 3 4) s0)) = (True, s0)"
    by (simp add: C0_def C_noBudget_def debugState_def cfg0_def diagnosticSyscall_def)
  have c2: "(\<exists>s'. handleUserLevelFault cfg0 C0 3 4 ([], s0)
           = Ret EXCEPTION_NONE
               ([] @ [E_updateTimestamp, E_checkBudget,
                      if True then E_handleFault (ksCurThread s0)
                      else E_setThreadState (ksCurThread s0) ThreadState_Restart,
                      E_schedule, E_activateThread], s'))"
    by (rule T [where C = "C0" and cfg = "cfg0" and s = "s0" and tr = "[]" and irq = "3" and ?s1.0 = "s0" and w = "77" and b = "True" and sb = "s0" and w_a = "3" and w_b = "4" and vm_faultType = "2" and status = "EXCEPTION_FAULT" and sv = "s0" and syscall = "SysCall" and isCall = "True" and isBlocking = "True" and n = "99",
             THEN conjunct2, THEN conjunct2, THEN conjunct1, rule_format, OF h2_0])
  note w2 = h2_0 c2
  have h3_0: "checkBudget C0 (updateTimestamp C0 (debugState cfg0 (entry_VMFault 2) s0)) = (True, s0)"
    by (simp add: C0_def C_noBudget_def debugState_def cfg0_def diagnosticSyscall_def)
  have h3_1: "handleVMFault C0 (ksCurThread s0) 2 s0 = (EXCEPTION_FAULT, s0)"
    by (simp add: C0_def C_noBudget_def debugState_def cfg0_def diagnosticSyscall_def)
  have c3: "(\<exists>s'. handleVMFaultEvent cfg0 C0 2 ([], s0)
           = Ret EXCEPTION_NONE
               ([] @ [E_updateTimestamp, E_checkBudget]
                   @ (if True
                      then E_handleVMFault (ksCurThread s0) 2
                             # (if EXCEPTION_FAULT \<noteq> EXCEPTION_NONE
                                then [E_handleFault (ksCurThread s0)] else [])
                      else [E_setThreadState (ksCurThread s0) ThreadState_Restart])
                   @ [E_schedule, E_activateThread], s'))"
    by (rule T [where C = "C0" and cfg = "cfg0" and s = "s0" and tr = "[]" and irq = "3" and ?s1.0 = "s0" and w = "77" and b = "True" and sb = "s0" and w_a = "3" and w_b = "4" and vm_faultType = "2" and status = "EXCEPTION_FAULT" and sv = "s0" and syscall = "SysCall" and isCall = "True" and isBlocking = "True" and n = "99",
             THEN conjunct2, THEN conjunct2, THEN conjunct2, THEN conjunct1, rule_format, OF conjI [OF h3_0 h3_1]])
  note w3 = h3_0 h3_1 c3
  have h4_0: "checkBudget C_noBudget (updateTimestamp C_noBudget (debugState cfg0 (entry_Syscall SysCall) s0)) = (False, s0)"
    by (simp add: C0_def C_noBudget_def debugState_def cfg0_def diagnosticSyscall_def)
  have c4: "(handleSyscall cfg0 C_noBudget SysCall ([], s0)
         = Ret EXCEPTION_NONE
             ([] @ [E_updateTimestamp, E_checkBudget,
                    E_setThreadState (ksCurThread s0) ThreadState_Restart,
                    E_schedule, E_activateThread],
              activateThread C_noBudget (schedule C_noBudget
                (setThreadState C_noBudget (ksCurThread s0) ThreadState_Restart s0))))"
    by (rule T [where C = "C_noBudget" and cfg = "cfg0" and s = "s0" and tr = "[]" and irq = "3" and ?s1.0 = "s0" and w = "77" and b = "True" and sb = "s0" and w_a = "3" and w_b = "4" and vm_faultType = "2" and status = "EXCEPTION_FAULT" and sv = "s0" and syscall = "SysCall" and isCall = "True" and isBlocking = "True" and n = "99",
             THEN conjunct2, THEN conjunct2, THEN conjunct2, THEN conjunct2, THEN conjunct1, rule_format, OF h4_0])
  note w4 = h4_0 c4
  have h5_0: "checkBudget C0 (updateTimestamp C0 (debugState cfg0 (entry_Syscall SysCall) s0)) = (True, s0)"
    by (simp add: C0_def C_noBudget_def debugState_def cfg0_def diagnosticSyscall_def)
  have h5_1: "(SysCall = SysSend \<and> \<not> True \<and> True
          \<or> SysCall = SysNBSend \<and> \<not> True \<and> \<not> True
          \<or> SysCall = SysCall \<and> True \<and> True)"
    by (simp add: C0_def C_noBudget_def debugState_def cfg0_def diagnosticSyscall_def)
  have c5: "(\<exists>r path s'.
           handleInvocation cfg0 C0 True True ([] @ [E_updateTimestamp, E_checkBudget], s0)
             = Ret r ([] @ [E_updateTimestamp, E_checkBudget] @ path, s')
           \<and> E_schedule \<notin> set path \<and> E_activateThread \<notin> set path
           \<and> handleSyscall cfg0 C0 SysCall ([], s0)
               = Ret EXCEPTION_NONE
                   ([] @ [E_updateTimestamp, E_checkBudget] @ path
                       @ (if r = EXCEPTION_PREEMPTED
                          then E_getActiveIRQ
                                 # (if fst (getActiveIRQ C0 s') \<noteq> irqInvalid cfg0
                                    then [E_handleInterrupt (fst (getActiveIRQ C0 s'))] else [])
                          else [])
                       @ [E_schedule, E_activateThread],
                    activateThread C0 (schedule C0
                      (if r = EXCEPTION_PREEMPTED
                       then (if fst (getActiveIRQ C0 s') \<noteq> irqInvalid cfg0
                             then handleInterrupt C0 (fst (getActiveIRQ C0 s')) (snd (getActiveIRQ C0 s'))
                             else snd (getActiveIRQ C0 s'))
                       else s'))))"
    by (rule T [where C = "C0" and cfg = "cfg0" and s = "s0" and tr = "[]" and irq = "3" and ?s1.0 = "s0" and w = "77" and b = "True" and sb = "s0" and w_a = "3" and w_b = "4" and vm_faultType = "2" and status = "EXCEPTION_FAULT" and sv = "s0" and syscall = "SysCall" and isCall = "True" and isBlocking = "True" and n = "99",
             THEN conjunct2, THEN conjunct2, THEN conjunct2, THEN conjunct2, THEN conjunct2, THEN conjunct1, rule_format, OF conjI [OF h5_0 h5_1]])
  note w5 = h5_0 h5_1 c5
  have h6_0: "checkBudget C0 (updateTimestamp C0 (debugState cfg0 (entry_Syscall SysRecv) s0)) = (True, s0)"
    by (simp add: C0_def C_noBudget_def debugState_def cfg0_def diagnosticSyscall_def)
  have h6_1: "(SysRecv = SysRecv \<and> True \<or> SysRecv = SysNBRecv \<and> \<not> True)"
    by (simp add: C0_def C_noBudget_def debugState_def cfg0_def diagnosticSyscall_def)
  have c6: "(\<exists>path s'.
           handleRecv C0 True ([] @ [E_updateTimestamp, E_checkBudget], s0)
             = Ret () ([] @ [E_updateTimestamp, E_checkBudget] @ path, s')
           \<and> E_schedule \<notin> set path \<and> E_activateThread \<notin> set path
           \<and> handleSyscall cfg0 C0 SysRecv ([], s0)
               = Ret EXCEPTION_NONE
                   ([] @ [E_updateTimestamp, E_checkBudget] @ path @ [E_schedule, E_activateThread],
                    activateThread C0 (schedule C0 s')))"
    by (rule T [where C = "C0" and cfg = "cfg0" and s = "s0" and tr = "[]" and irq = "3" and ?s1.0 = "s0" and w = "77" and b = "True" and sb = "s0" and w_a = "3" and w_b = "4" and vm_faultType = "2" and status = "EXCEPTION_FAULT" and sv = "s0" and syscall = "SysRecv" and isCall = "True" and isBlocking = "True" and n = "99",
             THEN conjunct2, THEN conjunct2, THEN conjunct2, THEN conjunct2, THEN conjunct2, THEN conjunct2, THEN conjunct1, rule_format, OF conjI [OF h6_0 h6_1]])
  note w6 = h6_0 h6_1 c6
  have h7_0: "checkBudget C0 (updateTimestamp C0 (debugState cfg0 (entry_Syscall SysReply) s_master)) = (True, s_master)"
    by (simp add: C0_def C_noBudget_def debugState_def cfg0_def diagnosticSyscall_def)
  have f7: "handleReplyFatal cfg0 s_master"
    by (simp add: handleReplyFatal_def handleYieldFatal_def s_master_def s_reply_def s0_def tcb0_def cfg0_def)
  have c7: "(\<exists>e. handleReply cfg0 C0 ([] @ [E_updateTimestamp, E_checkBudget], s_master)
                     = Fatal e ([] @ [E_updateTimestamp, E_checkBudget], s_master)
                   \<and> handleSyscall cfg0 C0 SysReply ([], s_master)
                       = Fatal e ([] @ [E_updateTimestamp, E_checkBudget], s_master))"
    using T [where C = "C0" and cfg = "cfg0" and s = "s_master" and tr = "[]" and irq = "3" and ?s1.0 = "s0" and w = "77" and b = "True" and sb = "s_master" and w_a = "3" and w_b = "4" and vm_faultType = "2" and status = "EXCEPTION_FAULT" and sv = "s0" and syscall = "SysCall" and isCall = "True" and isBlocking = "True" and n = "99",
             THEN conjunct2, THEN conjunct2, THEN conjunct2, THEN conjunct2, THEN conjunct2, THEN conjunct2, THEN conjunct2, THEN conjunct1, rule_format, OF h7_0]
          f7
    by simp
  note w7 = h7_0 f7 c7
  have h8_0: "checkBudget C0 (updateTimestamp C0 (debugState cfg0 (entry_Syscall SysReplyRecv) s_reply)) = (True, s_reply)"
    by (simp add: C0_def C_noBudget_def debugState_def cfg0_def diagnosticSyscall_def)
  have f8: "\<not> handleReplyFatal cfg0 s_reply"
    by (simp add: handleReplyFatal_def handleYieldFatal_def s_master_def s_reply_def s0_def tcb0_def cfg0_def)
  have c8: "(\<exists>p1 s1 p2 s2.
                handleReply cfg0 C0 ([] @ [E_updateTimestamp, E_checkBudget], s_reply)
                  = Ret () ([] @ [E_updateTimestamp, E_checkBudget] @ p1, s1)
                \<and> handleRecv C0 True ([] @ [E_updateTimestamp, E_checkBudget] @ p1, s1)
                    = Ret () ([] @ [E_updateTimestamp, E_checkBudget] @ p1 @ p2, s2)
                \<and> E_schedule \<notin> set (p1 @ p2) \<and> E_activateThread \<notin> set (p1 @ p2)
                \<and> handleSyscall cfg0 C0 SysReplyRecv ([], s_reply)
                    = Ret EXCEPTION_NONE
                        ([] @ [E_updateTimestamp, E_checkBudget] @ p1 @ p2
                            @ [E_schedule, E_activateThread],
                         activateThread C0 (schedule C0 s2)))"
    using T [where C = "C0" and cfg = "cfg0" and s = "s_reply" and tr = "[]" and irq = "3" and ?s1.0 = "s0" and w = "77" and b = "True" and sb = "s_reply" and w_a = "3" and w_b = "4" and vm_faultType = "2" and status = "EXCEPTION_FAULT" and sv = "s0" and syscall = "SysCall" and isCall = "True" and isBlocking = "True" and n = "99",
             THEN conjunct2, THEN conjunct2, THEN conjunct2, THEN conjunct2, THEN conjunct2, THEN conjunct2, THEN conjunct2, THEN conjunct2, THEN conjunct1, rule_format, OF h8_0]
          f8
    by simp
  note w8 = h8_0 f8 c8
  have h9_0: "checkBudget C0 (updateTimestamp C0 (debugState cfg0 (entry_Syscall SysYield) s0)) = (True, s0)"
    by (simp add: C0_def C_noBudget_def debugState_def cfg0_def diagnosticSyscall_def)
  have f9: "\<not> handleYieldFatal cfg0 s0"
    by (simp add: handleReplyFatal_def handleYieldFatal_def s_master_def s_reply_def s0_def tcb0_def cfg0_def)
  have c9: "(\<exists>path s'.
                handleYield cfg0 C0 ([] @ [E_updateTimestamp, E_checkBudget], s0)
                  = Ret () ([] @ [E_updateTimestamp, E_checkBudget] @ path, s')
                \<and> E_schedule \<notin> set path \<and> E_activateThread \<notin> set path
                \<and> handleSyscall cfg0 C0 SysYield ([], s0)
                    = Ret EXCEPTION_NONE
                        ([] @ [E_updateTimestamp, E_checkBudget] @ path @ [E_schedule, E_activateThread],
                         activateThread C0 (schedule C0 s')))"
    using T [where C = "C0" and cfg = "cfg0" and s = "s0" and tr = "[]" and irq = "3" and ?s1.0 = "s0" and w = "77" and b = "True" and sb = "s0" and w_a = "3" and w_b = "4" and vm_faultType = "2" and status = "EXCEPTION_FAULT" and sv = "s0" and syscall = "SysCall" and isCall = "True" and isBlocking = "True" and n = "99",
             THEN conjunct2, THEN conjunct2, THEN conjunct2, THEN conjunct2, THEN conjunct2, THEN conjunct2, THEN conjunct2, THEN conjunct2, THEN conjunct2, THEN conjunct1, rule_format, OF h9_0]
          f9
    by simp
  note w9 = h9_0 f9 c9
  have h10_0: "checkBudget C0 (updateTimestamp C0 (debugState cfg0 (entry_Syscall (SysUndefined 99)) s0)) = (True, s0)"
    by (simp add: C0_def C_noBudget_def debugState_def cfg0_def diagnosticSyscall_def)
  have c10: "(handleSyscall cfg0 C0 (SysUndefined 99) ([], s0)
         = Fatal (Fail ''Invalid syscall'') ([] @ [E_updateTimestamp, E_checkBudget], s0))"
    by (rule T [where C = "C0" and cfg = "cfg0" and s = "s0" and tr = "[]" and irq = "3" and ?s1.0 = "s0" and w = "77" and b = "True" and sb = "s0" and w_a = "3" and w_b = "4" and vm_faultType = "2" and status = "EXCEPTION_FAULT" and sv = "s0" and syscall = "SysCall" and isCall = "True" and isBlocking = "True" and n = "99",
             THEN conjunct2, THEN conjunct2, THEN conjunct2, THEN conjunct2, THEN conjunct2, THEN conjunct2, THEN conjunct2, THEN conjunct2, THEN conjunct2, THEN conjunct2, rule_format, OF h10_0])
  note w10 = h10_0 c10
  show ?thesis
    by (intro conjI w0 w1 w2 w3 w4 w5 w6 w7 w8 w9 w10)
qed

end
